theory Spec2Isabelle
  imports Main "HOL-Library.Product_Lexorder"
begin

section \<open>JavaScript values shared by both variants of the chat application\<close>

text \<open>
  The repository holds two generations of the same chat client: an Express server over a
  relational database (\<^verbatim>\<open>backend/server.js\<close>, \<^verbatim>\<open>backend/auth.js\<close>) and a Next.js client over a
  document store (\<^verbatim>\<open>components/chat/ChatArea.tsx\<close>, the \<^verbatim>\<open>/api/chat\<close> route and
  \<^verbatim>\<open>lib/n8n\<close>). Both are embedded here. A JavaScript string is a \<^typ>\<open>string\<close>: a list of
  code units, of which only those below 256 are represented.
\<close>

subsection \<open>Strings\<close>

definition is_space :: "char \<Rightarrow> bool" where
  \<comment> \<open>the white space and line terminators \<^verbatim>\<open>String.prototype.trim\<close> removes, below code unit 256\<close>
  "is_space c = (of_char c \<in> {9, 10, 11, 12, 13, 32, 160 :: nat})"

definition trim :: "string \<Rightarrow> string" where
  "trim s = rev (dropWhile is_space (rev (dropWhile is_space s)))"

function string_of_nat :: "nat \<Rightarrow> string" where
  "string_of_nat n =
     (if n < 10 then [char_of (48 + n)]
      else string_of_nat (n div 10) @ [char_of (48 + n mod 10)])"
  by pat_completeness auto
termination
  by (relation "measure (\<lambda>n. n)") auto

declare string_of_nat.simps [simp del]

subsection \<open>JSON values, truthiness and property access\<close>

text \<open>
  A value produced by \<^verbatim>\<open>JSON.parse\<close>, or \<^verbatim>\<open>undefined\<close>. An object is the list of its own
  properties (keys distinct, as after parsing); numbers are the integral ones.
\<close>

datatype json =
    JUndefined
  | JNull
  | JBool bool
  | JNum int
  | JStr string
  | JArr "json list"
  | JObj "(string \<times> json) list"

datatype js_error = TypeError | Error string

fun truthy :: "json \<Rightarrow> bool" where
  "truthy JUndefined = False"
| "truthy JNull = False"
| "truthy (JBool b) = b"
| "truthy (JNum n) = (n \<noteq> 0)"
| "truthy (JStr s) = (s \<noteq> [])"
| "truthy (JArr xs) = True"
| "truthy (JObj kvs) = True"

fun is_string :: "json \<Rightarrow> bool" where
  \<comment> \<open>\<^verbatim>\<open>typeof v === 'string'\<close>\<close>
  "is_string (JStr s) = True"
| "is_string v = False"

fun nullish :: "json \<Rightarrow> bool" where
  \<comment> \<open>the values whose property reads throw a \<^verbatim>\<open>TypeError\<close>\<close>
  "nullish JUndefined = True"
| "nullish JNull = True"
| "nullish v = False"

fun field :: "json \<Rightarrow> string \<Rightarrow> json" where
  \<comment> \<open>\<^verbatim>\<open>data.key\<close> on a value that is not nullish; none of the keys read by the code is a
      property of a number, a boolean, a string or an array\<close>
  "field (JObj kvs) k = (case map_of kvs k of None \<Rightarrow> JUndefined | Some v \<Rightarrow> v)"
| "field v k = JUndefined"

definition truthy_str :: "string option \<Rightarrow> bool" where
  \<comment> \<open>a string-valued request field: \<^verbatim>\<open>undefined\<close> and the empty string are falsy\<close>
  "truthy_str v = (case v of None \<Rightarrow> False | Some s \<Rightarrow> s \<noteq> [])"

definition truthy_id :: "nat option \<Rightarrow> bool" where
  \<comment> \<open>a numeric id field: \<^verbatim>\<open>undefined\<close> and 0 are falsy\<close>
  "truthy_id v = (case v of None \<Rightarrow> False | Some n \<Rightarrow> n \<noteq> 0)"

text \<open>
  The functions of the runtime and of the libraries the handlers call. They are not code of
  this repository and are passed in.
\<close>

record js_lib =
  json_parse :: "string \<Rightarrow> json option"
    \<comment> \<open>\<^verbatim>\<open>JSON.parse\<close>; \<^const>\<open>None\<close> when it throws\<close>
  json_stringify :: "json \<Rightarrow> string"
    \<comment> \<open>\<^verbatim>\<open>JSON.stringify(v)\<close>\<close>
  json_stringify_indent :: "json \<Rightarrow> string"
    \<comment> \<open>\<^verbatim>\<open>JSON.stringify(v, null, 2)\<close>\<close>
  pg_text :: "json \<Rightarrow> string"
    \<comment> \<open>how the database driver writes a query parameter that is not a string\<close>
  bcrypt_compare :: "string \<Rightarrow> string \<Rightarrow> bool"
  jwt_sign :: "nat \<Rightarrow> string"

definition ok_status :: "nat \<Rightarrow> bool" where
  \<comment> \<open>\<^verbatim>\<open>response.ok\<close> of the Fetch API\<close>
  "ok_status st = (200 \<le> st \<and> st \<le> 299)"

section \<open>The document-store variant\<close>

subsection \<open>The \<^verbatim>\<open>/api/chat\<close> route: extraction of the reply text (\<^verbatim>\<open>POST\<close>, lines 37 to 66)\<close>

definition probe_fields :: "js_lib \<Rightarrow> json \<Rightarrow> js_error + json" where
  \<comment> \<open>the body of the inner \<^verbatim>\<open>try\<close> once \<^verbatim>\<open>JSON.parse\<close> has returned \<^verbatim>\<open>data\<close>\<close>
  "probe_fields lib data =
     (if is_string data then Inr data
      else if nullish data then Inl TypeError
      else if truthy (field data ''responseBody'') then Inr (field data ''responseBody'')
      else if truthy (field data ''redacted'') then Inr (field data ''redacted'')
      else if truthy (field data ''message'') then Inr (field data ''message'')
      else if truthy (field data ''output'') then Inr (field data ''output'')
      else if truthy (field data ''text'') then Inr (field data ''text'')
      else Inr (JStr (json_stringify lib data)))"

definition extract_response_text :: "js_lib \<Rightarrow> string \<Rightarrow> json" where
  \<comment> \<open>\<^verbatim>\<open>responseText\<close> after the \<^verbatim>\<open>try\<close>/\<^verbatim>\<open>catch\<close>: any exception falls back to the raw body\<close>
  "extract_response_text lib rawText =
     (case json_parse lib rawText of
        None \<Rightarrow> JStr rawText
      | Some data \<Rightarrow>
        (case probe_fields lib data of
           Inl e \<Rightarrow> JStr rawText
         | Inr responseText \<Rightarrow> responseText))"

text \<open>The priority order of the known field names, as a list, and the first match in it.\<close>

definition known_fields :: "string list" where
  "known_fields = [''responseBody'', ''redacted'', ''message'', ''output'', ''text'']"

fun first_truthy :: "json \<Rightarrow> string list \<Rightarrow> json option" where
  "first_truthy data [] = None"
| "first_truthy data (k # ks) =
     (if truthy (field data k) then Some (field data k) else first_truthy data ks)"

subsection \<open>The route handler and the client helper\<close>

datatype fetch_result =
    FetchFailed
  | FetchResponse nat string

definition error_body :: "string \<Rightarrow> json" where
  "error_body msg = JObj [(''error'', JStr msg)]"

definition POST :: "js_lib \<Rightarrow> json option \<Rightarrow> string option \<Rightarrow> fetch_result \<Rightarrow> nat \<times> json" where
  \<comment> \<open>the request body as \<^verbatim>\<open>request.json()\<close> gives it (\<^const>\<open>None\<close> when it rejects), the
      configured webhook URL, and what the webhook answers; returns status and JSON body\<close>
  "POST lib body webhookUrl upstream =
     (case body of
        None \<Rightarrow> (500, error_body ''Failed to process chat request'')
      | Some b \<Rightarrow>
        if \<not> truthy_str webhookUrl then (500, error_body ''N8N webhook URL is not configured'')
        else if nullish b then (500, error_body ''Failed to process chat request'')
        else (case upstream of
           FetchFailed \<Rightarrow> (500, error_body ''Failed to process chat request'')
         | FetchResponse st rawText \<Rightarrow>
           if \<not> ok_status st
           then (st, error_body (''N8N request failed with status: '' @ string_of_nat st))
           else (200, JObj [(''responseBody'', extract_response_text lib rawText)])))"

datatype proxy_result =
    ProxyFailed
  | ProxyResponse nat json

fun error_message :: "json \<Rightarrow> string" where
  \<comment> \<open>\<^verbatim>\<open>data.error as string\<close>\<close>
  "error_message (JStr s) = s"
| "error_message v = []"

definition sendMessageToN8n :: "js_lib \<Rightarrow> proxy_result \<Rightarrow> js_error + json" where
  \<comment> \<open>\<^const>\<open>Inl\<close> is the exception the helper rethrows\<close>
  "sendMessageToN8n lib response =
     (case response of
        ProxyFailed \<Rightarrow> Inl TypeError
      | ProxyResponse st data \<Rightarrow>
        if \<not> ok_status st then Inl (Error (''Request failed with status: '' @ string_of_nat st))
        else if nullish data then Inl TypeError
        else if truthy (field data ''error'') then Inl (Error (error_message (field data ''error'')))
        else if is_string data then Inr data
        else if truthy (field data ''responseBody'') then Inr (field data ''responseBody'')
        else Inr (JStr (json_stringify lib data)))"

subsection \<open>The store and the chat component\<close>

datatype role = RoleUser | RoleAssistant

record message_doc =
  msg_role :: role
  msg_content :: json
  msg_createdAt :: nat

record conversation_doc =
  conv_userId :: string
  conv_title :: string
  conv_createdAt :: nat
  conv_updatedAt :: nat

record firestore =
  conversations :: "string \<Rightarrow> conversation_doc option"
  conv_messages :: "string \<Rightarrow> message_doc list"

datatype write_op =
    AddUserMessage
  | UpdateTitle
  | UpdateTimestamp
  | AddAssistantMessage
  | AddErrorMessage

text \<open>
  What the surroundings of one submit decide: whether the store accepts each write (its
  access rules and the network are outside the source), the server timestamps, whether the
  browser reaches the route, the route's configuration and what the webhook answers.
\<close>

record client_env =
  write_ok :: "write_op \<Rightarrow> bool"
  server_time :: "write_op \<Rightarrow> nat"
  proxy_reachable :: bool
  webhook_url :: "string option"
  upstream :: fetch_result

datatype effect =
    Wrote write_op
  | CalledN8n

record chat_state =
  st_messages :: "message_doc list"
  st_input :: string
  st_loading :: bool

definition addDoc :: "client_env \<Rightarrow> write_op \<Rightarrow> string \<Rightarrow> message_doc \<Rightarrow> firestore \<Rightarrow> firestore option" where
  \<comment> \<open>\<^const>\<open>None\<close> when the promise rejects\<close>
  "addDoc env op cid d fs =
     (if write_ok env op
      then Some (fs\<lparr>conv_messages := (conv_messages fs)(cid := conv_messages fs cid @ [d])\<rparr>)
      else None)"

definition updateDoc ::
  "client_env \<Rightarrow> write_op \<Rightarrow> string \<Rightarrow> (conversation_doc \<Rightarrow> conversation_doc) \<Rightarrow> firestore \<Rightarrow> firestore option" where
  \<comment> \<open>updating a document that does not exist rejects\<close>
  "updateDoc env op cid upd fs =
     (case conversations fs cid of
        None \<Rightarrow> None
      | Some c \<Rightarrow>
        if write_ok env op
        then Some (fs\<lparr>conversations := (conversations fs)(cid := Some (upd c))\<rparr>)
        else None)"

definition derived_title :: "string \<Rightarrow> string" where
  \<comment> \<open>\<^verbatim>\<open>firstMessage.slice(0, 50) + (firstMessage.length > 50 ? '...' : '')\<close>\<close>
  "derived_title firstMessage =
     take 50 firstMessage @ (if length firstMessage > 50 then ''...'' else [])"

definition updateConversationTitle ::
  "client_env \<Rightarrow> string \<Rightarrow> string \<Rightarrow> firestore \<Rightarrow> firestore \<times> effect list" where
  \<comment> \<open>a rejected update is caught and logged; the callback \<^verbatim>\<open>onTitleChange\<close> of the chat page
      does nothing\<close>
  "updateConversationTitle env conversationId firstMessage fs =
     (let title = derived_title firstMessage in
      case updateDoc env UpdateTitle conversationId
             (\<lambda>c. c\<lparr>conv_title := title, conv_updatedAt := server_time env UpdateTitle\<rparr>) fs of
        Some fs' \<Rightarrow> (fs', [Wrote UpdateTitle])
      | None \<Rightarrow> (fs, []))"

definition fallback_text :: string where
  "fallback_text = ''Sorry, an error occurred. Please try again.''"

definition call_n8n :: "js_lib \<Rightarrow> client_env \<Rightarrow> string \<Rightarrow> string \<Rightarrow> js_error + json" where
  \<comment> \<open>\<^verbatim>\<open>sendMessageToN8n(userMessage, conversationId)\<close> against the route\<close>
  "call_n8n lib env userMessage conversationId =
     sendMessageToN8n lib
       (if proxy_reachable env
        then (case POST lib
                     (Some (JObj [(''message'', JStr userMessage),
                                  (''conversationId'', JStr conversationId)]))
                     (webhook_url env) (upstream env) of
                (st, data) \<Rightarrow> ProxyResponse st data)
        else ProxyFailed)"

definition submit_try ::
  "js_lib \<Rightarrow> client_env \<Rightarrow> string \<Rightarrow> chat_state \<Rightarrow> string \<Rightarrow> firestore
     \<Rightarrow> (firestore \<times> effect list) + (firestore \<times> effect list)" where
  \<comment> \<open>the \<^verbatim>\<open>try\<close> block of \<^verbatim>\<open>handleSubmit\<close>; \<^const>\<open>Inl\<close> when it throws\<close>
  "submit_try lib env conversationId st userMessage fs =
     (case addDoc env AddUserMessage conversationId
             \<lparr>msg_role = RoleUser, msg_content = JStr userMessage,
              msg_createdAt = server_time env AddUserMessage\<rparr> fs of
        None \<Rightarrow> Inl (fs, [])
      | Some fs1 \<Rightarrow>
        (case (if st_messages st = []
               then updateConversationTitle env conversationId userMessage fs1
               else (fs1, [])) of
           (fs2, tr2) \<Rightarrow>
           (case updateDoc env UpdateTimestamp conversationId
                   (\<lambda>c. c\<lparr>conv_updatedAt := server_time env UpdateTimestamp\<rparr>) fs2 of
              None \<Rightarrow> Inl (fs2, Wrote AddUserMessage # tr2)
            | Some fs3 \<Rightarrow>
              (case call_n8n lib env userMessage conversationId of
                 Inl e \<Rightarrow> Inl (fs3, Wrote AddUserMessage # tr2 @ [Wrote UpdateTimestamp, CalledN8n])
               | Inr response \<Rightarrow>
                 (case addDoc env AddAssistantMessage conversationId
                         \<lparr>msg_role = RoleAssistant, msg_content = response,
                          msg_createdAt = server_time env AddAssistantMessage\<rparr> fs3 of
                    None \<Rightarrow> Inl (fs3, Wrote AddUserMessage # tr2 @ [Wrote UpdateTimestamp, CalledN8n])
                  | Some fs4 \<Rightarrow>
                    Inr (fs4, Wrote AddUserMessage # tr2
                                @ [Wrote UpdateTimestamp, CalledN8n, Wrote AddAssistantMessage]))))))"

definition handleSubmit ::
  "js_lib \<Rightarrow> client_env \<Rightarrow> string \<Rightarrow> chat_state \<Rightarrow> firestore
     \<Rightarrow> chat_state \<times> firestore \<times> effect list" where
  \<comment> \<open>the component state once \<^verbatim>\<open>finally\<close> has run, the store, and the effects in order;
      \<^verbatim>\<open>st_messages\<close> is the list the snapshot listener keeps, read at the time of the submit\<close>
  "handleSubmit lib env conversationId st fs =
     (if trim (st_input st) = [] \<or> st_loading st then (st, fs, [])
      else
        let userMessage = trim (st_input st);
            st' = st\<lparr>st_input := [], st_loading := False\<rparr>
        in case submit_try lib env conversationId st userMessage fs of
             Inr (fs', tr) \<Rightarrow> (st', fs', tr)
           | Inl (fs', tr) \<Rightarrow>
             (case addDoc env AddErrorMessage conversationId
                     \<lparr>msg_role = RoleAssistant, msg_content = JStr fallback_text,
                      msg_createdAt = server_time env AddErrorMessage\<rparr> fs' of
                Some fs'' \<Rightarrow> (st', fs'', tr @ [Wrote AddErrorMessage])
              | None \<Rightarrow> (st', fs', tr)))"

section \<open>The relational variant: \<^verbatim>\<open>backend/server.js\<close> and \<^verbatim>\<open>backend/auth.js\<close>\<close>

subsection \<open>Tables\<close>

record user_row =
  u_id :: nat
  u_email :: string
  u_password_hash :: string
  u_first_name :: string
  u_last_name :: string
  u_is_active :: bool
  u_email_verified :: bool
  u_last_login :: "nat option"

record session_row =
  s_id :: nat
  s_user_id :: nat
  s_session_name :: string
  s_updated_at :: nat
  s_is_active :: bool

datatype message_type = TypeUser | TypeBot

record message_row =
  m_id :: nat
  m_session_id :: nat
  m_user_id :: nat
  m_message_text :: string
  m_message_type :: message_type
  m_webhook_response :: "string option"
  m_created_at :: nat
  m_response_time_ms :: "nat option"

record token_row =
  t_id :: nat
  t_user_id :: nat
  t_token :: string
  t_expires_at :: nat
  t_used_at :: "nat option"
  t_is_used :: bool

record activity_row =
  a_user_id :: nat
  a_activity_type :: string

record database =
  users :: "user_row list"
  chat_sessions :: "session_row list"
  messages :: "message_row list"
  email_verification_tokens :: "token_row list"
  user_activity_logs :: "activity_row list"
  messages_id_seq :: nat
  tokens_id_seq :: nat

subsection \<open>Configuration, surroundings and responses\<close>

record config =
  requireEmailVerification :: bool
  webhook_enabled :: bool
  webhook_config_url :: string
  userActivityLogging :: bool
  expiryHours :: nat
  has_email_service :: bool

text \<open>
  One constructor per SQL statement of the handlers embedded below. Every handler runs in a
  \<^verbatim>\<open>try\<close> whose \<^verbatim>\<open>catch\<close> answers 500; what can throw there is a statement the database
  fails. No handler opens a transaction, so the writes made before a failure stay.
\<close>

datatype query =
    LoginSelectUser
  | LoginUpdateLastLogin
  | ResendSelectUser
  | ResendDeleteTokens
  | ResendInsertToken
  | AuthResendSelectUser
  | AuthResendDeleteTokens
  | AuthResendInsertToken
  | DeleteUpdateSession
  | SendSelectSession
  | SendInsertUserMessage
  | SendInsertBotMessage
  | SendUpdateSession
  | GetSelectSession
  | GetSelectMessages
  | InsertActivityLog

datatype webhook_result =
    WebhookNetworkError
  | WebhookTimeout
  | WebhookResponse nat json

text \<open>
  What the surroundings of one request decide: which statements the database fails (the
  driver then throws), the database's \<^verbatim>\<open>CURRENT_TIMESTAMP\<close> at each statement, the order
  in which it returns rows with equal sort keys, the clock, the outcome of the webhook
  request (status and \<^verbatim>\<open>response.data\<close>), the random verification token and whether the
  mail was sent.
\<close>

record server_env =
  db_fails :: "query \<Rightarrow> bool"
  db_now :: "query \<Rightarrow> nat"
  tie_break :: "message_row \<Rightarrow> nat"
  js_now :: nat
  webhook :: webhook_result
  response_time :: nat
  new_token :: string
  email_sent :: bool

datatype body =
    ErrorBody string
  | ErrorCodeBody string string "string option"
  | LoginBody string user_row
  | SuccessBody
  | SendBody message_row json "nat option"
  | MessagesBody "message_row list"
  | ResendBody string string
  | AuthBody bool string

type_synonym response = "nat \<times> body"

datatype event =
    Inserted message_type
  | Emitted message_type
  | CalledWebhook
  | TouchedSession

definition internal_error :: response where
  "internal_error = (500, ErrorBody ''Internal server error'')"

definition logUserActivity :: "config \<Rightarrow> server_env \<Rightarrow> nat \<Rightarrow> string \<Rightarrow> database \<Rightarrow> database" where
  \<comment> \<open>a failed insert is caught and logged\<close>
  "logUserActivity cfg env userId activityType db =
     (if \<not> userActivityLogging cfg then db
      else if db_fails env InsertActivityLog then db
      else db\<lparr>user_activity_logs := user_activity_logs db
                 @ [\<lparr>a_user_id = userId, a_activity_type = activityType\<rparr>]\<rparr>)"

subsection \<open>\<^verbatim>\<open>POST /api/auth/login\<close>\<close>

definition login ::
  "config \<Rightarrow> js_lib \<Rightarrow> server_env \<Rightarrow> string option \<Rightarrow> string option \<Rightarrow> database
     \<Rightarrow> response \<times> database" where
  \<comment> \<open>\<^verbatim>\<open>email\<close> and \<^verbatim>\<open>password\<close> of the request body, \<^const>\<open>None\<close> when the field is missing\<close>
  "login cfg lib env email password db =
     (if \<not> truthy_str email \<or> \<not> truthy_str password
      then ((400, ErrorBody ''Email and password are required''), db)
      else (case (email, password) of
        (Some em, Some pw) \<Rightarrow>
          if db_fails env LoginSelectUser then (internal_error, db)
          else (case filter (\<lambda>u. u_email u = em \<and> u_is_active u) (users db) of
            [] \<Rightarrow> ((401, ErrorBody ''Invalid credentials''), db)
          | user # rest \<Rightarrow>
            if requireEmailVerification cfg \<and> \<not> u_email_verified user
            then ((403, ErrorCodeBody ''Please verify your email before logging in''
                          ''EMAIL_NOT_VERIFIED'' (Some (u_email user))), db)
            else if \<not> bcrypt_compare lib pw (u_password_hash user)
            then ((401, ErrorBody ''Invalid credentials''), db)
            else if db_fails env LoginUpdateLastLogin then (internal_error, db)
            else
              let db1 = db\<lparr>users := map (\<lambda>u. if u_id u = u_id user
                                then u\<lparr>u_last_login := Some (db_now env LoginUpdateLastLogin)\<rparr>
                                else u) (users db)\<rparr>;
                  token = jwt_sign lib (u_id user);
                  db2 = logUserActivity cfg env (u_id user) ''login'' db1
              in ((200, LoginBody token user), db2))
      | _ \<Rightarrow> ((400, ErrorBody ''Email and password are required''), db)))"

fun session_token :: "response \<Rightarrow> string option" where
  \<comment> \<open>the session token a response carries\<close>
  "session_token (st, LoginBody token user) = Some token"
| "session_token (st, b) = None"

subsection \<open>\<^verbatim>\<open>POST /api/auth/resend-verification\<close>, in \<^verbatim>\<open>server.js\<close> and in the router of \<^verbatim>\<open>auth.js\<close>\<close>






subsection \<open>\<^verbatim>\<open>DELETE /api/chat/sessions/:sessionId\<close>\<close>

definition not_found :: response where
  "not_found = (404, ErrorBody ''Session not found'')"

definition deleteSession ::
  "config \<Rightarrow> server_env \<Rightarrow> user_row \<Rightarrow> nat \<Rightarrow> database \<Rightarrow> response \<times> database" where
  \<comment> \<open>\<^verbatim>\<open>req.user\<close> is the row the authentication middleware found for the bearer token\<close>
  "deleteSession cfg env user sessionId db =
     (let userId = u_id user;
          hit = (\<lambda>s. s_id s = sessionId \<and> s_user_id s = userId \<and> s_is_active s)
      in if db_fails env DeleteUpdateSession then (internal_error, db)
         else if filter hit (chat_sessions db) = [] then (not_found, db)
         else
           let db1 = db\<lparr>chat_sessions := map (\<lambda>s. if hit s
                              then s\<lparr>s_is_active := False,
                                     s_updated_at := db_now env DeleteUpdateSession\<rparr>
                              else s) (chat_sessions db)\<rparr>
           in ((200, SuccessBody), logUserActivity cfg env userId ''chat_session_deleted'' db1))"

subsection \<open>\<^verbatim>\<open>POST /api/chat/message\<close>\<close>

definition botMessageText :: "js_lib \<Rightarrow> json \<Rightarrow> js_error + json" where
  \<comment> \<open>\<^verbatim>\<open>typeof r === 'string' ? r : (r.text || r.response || JSON.stringify(r, null, 2))\<close>\<close>
  "botMessageText lib webhookResponse =
     (if is_string webhookResponse then Inr webhookResponse
      else if nullish webhookResponse then Inl TypeError
      else if truthy (field webhookResponse ''text'') then Inr (field webhookResponse ''text'')
      else if truthy (field webhookResponse ''response'')
      then Inr (field webhookResponse ''response'')
      else Inr (JStr (json_stringify_indent lib webhookResponse)))"

fun text_param :: "js_lib \<Rightarrow> json \<Rightarrow> string" where
  \<comment> \<open>a query parameter bound to a \<^verbatim>\<open>TEXT\<close> column: a string goes in as it is\<close>
  "text_param lib (JStr s) = s"
| "text_param lib v = pg_text lib v"

definition validateStatus :: "nat \<Rightarrow> bool" where
  "validateStatus status = (status < 500)"

definition webhook_failed :: json where
  \<comment> \<open>what the \<^verbatim>\<open>catch\<close> of the webhook call leaves in \<^verbatim>\<open>webhookResponse\<close>\<close>
  "webhook_failed = JObj [(''error'', JStr ''Failed to get response from webhook'')]"

definition call_webhook ::
  "config \<Rightarrow> js_lib \<Rightarrow> server_env \<Rightarrow> user_row \<Rightarrow> nat \<Rightarrow> database
     \<Rightarrow> database \<times> json \<times> nat option \<times> event list" where
  \<comment> \<open>the \<^verbatim>\<open>if (config.webhook.enabled && config.webhook.url)\<close> block: the database, then
      \<^verbatim>\<open>webhookResponse\<close>, \<^verbatim>\<open>responseTime\<close> and what was done\<close>
  "call_webhook cfg lib env user sessionId db =
     (if webhook_enabled cfg \<and> webhook_config_url cfg \<noteq> []
      then
        let caught = (db, webhook_failed, Some (response_time env), [CalledWebhook])
        in (case webhook env of
              WebhookNetworkError \<Rightarrow> caught
            | WebhookTimeout \<Rightarrow> caught
            | WebhookResponse status data \<Rightarrow>
              if \<not> validateStatus status then caught
              else (case botMessageText lib data of
                Inl e \<Rightarrow> caught
              | Inr text_v \<Rightarrow>
                if db_fails env SendInsertBotMessage then caught
                else
                  let botMessage =
                        \<lparr>m_id = messages_id_seq db + 1, m_session_id = sessionId,
                         m_user_id = u_id user, m_message_text = text_param lib text_v,
                         m_message_type = TypeBot,
                         m_webhook_response = Some (json_stringify lib data),
                         m_created_at = db_now env SendInsertBotMessage,
                         m_response_time_ms = Some (response_time env)\<rparr>
                  in (db\<lparr>messages := messages db @ [botMessage],
                         messages_id_seq := messages_id_seq db + 1\<rparr>,
                      data, Some (response_time env),
                      [CalledWebhook, Inserted TypeBot, Emitted TypeBot])))
      else (db, JNull, None, []))"

definition sendMessage ::
  "config \<Rightarrow> js_lib \<Rightarrow> server_env \<Rightarrow> user_row \<Rightarrow> nat option \<Rightarrow> string option \<Rightarrow> database
     \<Rightarrow> response \<times> database \<times> event list" where
  \<comment> \<open>\<^verbatim>\<open>req.user\<close>, then \<^verbatim>\<open>sessionId\<close> and \<^verbatim>\<open>message\<close> of the request body; returns the response,
      the database and what was done, in order\<close>
  "sendMessage cfg lib env user sessionId message db =
     (if \<not> truthy_id sessionId \<or> \<not> truthy_str message
      then ((400, ErrorBody ''Session ID and message are required''), db, [])
      else (case (sessionId, message) of
        (Some sid, Some msg) \<Rightarrow>
          if db_fails env SendSelectSession then (internal_error, db, [])
          else if filter (\<lambda>s. s_id s = sid \<and> s_user_id s = u_id user \<and> s_is_active s)
                    (chat_sessions db) = []
          then (not_found, db, [])
          else if db_fails env SendInsertUserMessage then (internal_error, db, [])
          else
            let userMessage =
                  \<lparr>m_id = messages_id_seq db + 1, m_session_id = sid, m_user_id = u_id user,
                   m_message_text = msg, m_message_type = TypeUser,
                   m_webhook_response = None,
                   m_created_at = db_now env SendInsertUserMessage,
                   m_response_time_ms = None\<rparr>;
                db1 = db\<lparr>messages := messages db @ [userMessage],
                        messages_id_seq := messages_id_seq db + 1\<rparr>
            in (case call_webhook cfg lib env user sid db1 of
                  (db2, webhookResponse, responseTime, tr) \<Rightarrow>
                    if db_fails env SendUpdateSession
                    then (internal_error, db2, Inserted TypeUser # Emitted TypeUser # tr)
                    else
                      let db3 = db2\<lparr>chat_sessions := map (\<lambda>s. if s_id s = sid
                                        then s\<lparr>s_updated_at := db_now env SendUpdateSession\<rparr>
                                        else s) (chat_sessions db2)\<rparr>
                      in ((200, SendBody userMessage webhookResponse responseTime),
                          logUserActivity cfg env (u_id user) ''message_sent'' db3,
                          Inserted TypeUser # Emitted TypeUser # tr @ [TouchedSession]))
      | _ \<Rightarrow> ((400, ErrorBody ''Session ID and message are required''), db, [])))"

subsection \<open>\<^verbatim>\<open>GET /api/chat/sessions/:sessionId/messages\<close>\<close>

definition order_by_created_at_desc :: "server_env \<Rightarrow> message_row list \<Rightarrow> message_row list" where
  \<comment> \<open>\<^verbatim>\<open>ORDER BY created_at DESC\<close>; SQL leaves the order of rows with equal keys open, so
      among them the surroundings decide: the row with the larger \<^const>\<open>tie_break\<close> comes first\<close>
  "order_by_created_at_desc env rows =
     rev (sort_key (\<lambda>m. (m_created_at m, tie_break env m)) rows)"

definition getMessages ::
  "server_env \<Rightarrow> user_row \<Rightarrow> nat \<Rightarrow> int option \<Rightarrow> int option \<Rightarrow> database \<Rightarrow> response" where
  \<comment> \<open>\<^verbatim>\<open>page\<close> and \<^verbatim>\<open>limit\<close> are the numbers the query string holds; the database rejects a
      negative \<^verbatim>\<open>LIMIT\<close> or \<^verbatim>\<open>OFFSET\<close>\<close>
  "getMessages env user sessionId page_q limit_q db =
     (let page = (case page_q of None \<Rightarrow> 1 | Some p \<Rightarrow> p);
          limit = (case limit_q of None \<Rightarrow> 50 | Some l \<Rightarrow> l)
      in if db_fails env GetSelectSession then internal_error
         else if filter (\<lambda>s. s_id s = sessionId \<and> s_user_id s = u_id user) (chat_sessions db) = []
         then not_found
         else
           let offset = (page - 1) * limit
           in if db_fails env GetSelectMessages \<or> limit < 0 \<or> offset < 0 then internal_error
              else (200, MessagesBody (rev (take (nat limit) (drop (nat offset)
                      (order_by_created_at_desc env
                         (filter (\<lambda>m. m_session_id m = sessionId) (messages db))))))))"

subsection \<open>The client of the relational variant (\<^verbatim>\<open>App.js\<close>, \<^verbatim>\<open>sendMessage\<close>)\<close>

definition app_sendMessage :: "string \<Rightarrow> nat option \<Rightarrow> (nat \<times> string) option" where
  \<comment> \<open>the request the form submits, if any: the session id and the text as typed\<close>
  "app_sendMessage newMessage currentSession =
     (case currentSession of
        None \<Rightarrow> None
      | Some sid \<Rightarrow> if trim newMessage = [] then None else Some (sid, newMessage))"

subsection \<open>The socket server: \<^verbatim>\<open>io.on('connection')\<close> and \<^verbatim>\<open>joinSession\<close>\<close>

text \<open>
  A pair \<open>(socket, sessionId)\<close> says that the socket is in the room \<^verbatim>\<open>session_<sessionId>\<close>.
  A connection is accepted without a token, and the handler of \<^verbatim>\<open>joinSession\<close> reads no table.
\<close>

type_synonym rooms = "(nat \<times> nat) list"

definition joinSession :: "nat \<Rightarrow> nat \<Rightarrow> rooms \<Rightarrow> rooms" where
  \<comment> \<open>\<^verbatim>\<open>socket.join(`session_${sessionId}`)\<close>\<close>
  "joinSession socket sessionId rs =
     (if (socket, sessionId) \<in> set rs then rs else rs @ [(socket, sessionId)])"

definition room_members :: "nat \<Rightarrow> rooms \<Rightarrow> nat list" where
  "room_members sessionId rs = map fst (filter (\<lambda>p. snd p = sessionId) rs)"

fun emitted :: "event list \<Rightarrow> message_type list" where
  "emitted [] = []"
| "emitted (Emitted t # es) = t # emitted es"
| "emitted (e # es) = emitted es"

definition deliveries :: "nat \<Rightarrow> rooms \<Rightarrow> event list \<Rightarrow> (nat \<times> message_type) list" where
  \<comment> \<open>\<^verbatim>\<open>io.to(`session_${sessionId}`).emit('newMessage', row)\<close> for the rows a request emitted:
      every socket of the room receives each of them\<close>
  "deliveries sessionId rs tr =
     concat (map (\<lambda>t. map (\<lambda>socket. (socket, t)) (room_members sessionId rs)) (emitted tr))"

section \<open>Order of effects\<close>

fun happens_before :: "'a \<Rightarrow> 'a \<Rightarrow> 'a list \<Rightarrow> bool" where
  \<comment> \<open>in the list of effects, no \<open>b\<close> occurs unless an \<open>a\<close> occurs earlier\<close>
  "happens_before a b [] = True"
| "happens_before a b (x # xs) = (x = a \<or> (x \<noteq> b \<and> happens_before a b xs))"

definition user_doc :: "client_env \<Rightarrow> string \<Rightarrow> message_doc" where
  \<comment> \<open>the document \<^verbatim>\<open>handleSubmit\<close> adds for the text typed\<close>
  "user_doc env userMessage =
     \<lparr>msg_role = RoleUser, msg_content = JStr userMessage,
      msg_createdAt = server_time env AddUserMessage\<rparr>"

definition fallback_doc :: "client_env \<Rightarrow> message_doc" where
  \<comment> \<open>the document the \<^verbatim>\<open>catch\<close> branch of \<^verbatim>\<open>handleSubmit\<close> adds\<close>
  "fallback_doc env =
     \<lparr>msg_role = RoleAssistant, msg_content = JStr fallback_text,
      msg_createdAt = server_time env AddErrorMessage\<rparr>"


definition user_row_of :: "server_env \<Rightarrow> user_row \<Rightarrow> nat \<Rightarrow> string \<Rightarrow> database \<Rightarrow> message_row" where
  \<comment> \<open>the row \<^verbatim>\<open>sendMessage\<close> inserts for the text sent\<close>
  "user_row_of env user sid msg db =
     \<lparr>m_id = messages_id_seq db + 1, m_session_id = sid, m_user_id = u_id user,
      m_message_text = msg, m_message_type = TypeUser, m_webhook_response = None,
      m_created_at = db_now env SendInsertUserMessage, m_response_time_ms = None\<rparr>"

definition webhook_fails :: "webhook_result \<Rightarrow> bool" where
  \<comment> \<open>the outcomes for which the request of \<^verbatim>\<open>sendMessage\<close> rejects: no answer, a timeout, or
      a status that \<^const>\<open>validateStatus\<close> refuses\<close>
  "webhook_fails w =
     (case w of
        WebhookNetworkError \<Rightarrow> True
      | WebhookTimeout \<Rightarrow> True
      | WebhookResponse status data \<Rightarrow> 500 \<le> status)"

definition upstream_fails :: "fetch_result \<Rightarrow> bool" where
  \<comment> \<open>the webhook of the route does not answer, or answers with a status outside 200 to 299\<close>
  "upstream_fails u =
     (case u of
        FetchFailed \<Rightarrow> True
      | FetchResponse status rawText \<Rightarrow> \<not> ok_status status)"

section \<open>Concrete data for the closed instances\<close>

definition demo_parse :: "string \<Rightarrow> json option" where
  \<comment> \<open>\<^verbatim>\<open>JSON.parse\<close> on the bodies used below\<close>
  "demo_parse s =
     (if s = ''{\"output\": \"hi\"}'' then Some (JObj [(''output'', JStr ''hi'')])
      else if s = ''\"hi\"'' then Some (JStr ''hi'')
      else if s = ''{\"text\": \"nope\"}'' then Some (JObj [(''text'', JStr ''nope'')])
      else if s = ''null'' then Some JNull
      else None)"

definition demo_stringify :: "json \<Rightarrow> string" where
  "demo_stringify v =
     (if v = JObj [(''output'', JStr ''hi'')] then ''{\"output\":\"hi\"}''
      else if v = JObj [(''text'', JStr ''nope'')] then ''{\"text\":\"nope\"}''
      else ''null'')"

definition demo_stringify_indent :: "json \<Rightarrow> string" where
  "demo_stringify_indent v =
     (if v = JObj [(''output'', JStr ''hi'')] then ''{\<newline>  \"output\": \"hi\"\<newline>}''
      else ''null'')"

definition demo_lib :: js_lib where
  "demo_lib =
     \<lparr>json_parse = demo_parse, json_stringify = demo_stringify,
      json_stringify_indent = demo_stringify_indent, pg_text = demo_stringify,
      bcrypt_compare = (\<lambda>pw h. h = ''hash:'' @ pw),
      jwt_sign = (\<lambda>uid. ''jwt:'' @ string_of_nat uid)\<rparr>"

definition demo_fs :: firestore where
  "demo_fs =
     \<lparr>conversations = (\<lambda>c. if c = ''c1''
         then Some \<lparr>conv_userId = ''alice'', conv_title = ''New Chat'',
                    conv_createdAt = 1, conv_updatedAt = 1\<rparr>
         else None),
      conv_messages = (\<lambda>c. [])\<rparr>"

definition demo_client_env :: client_env where
  "demo_client_env =
     \<lparr>write_ok = (\<lambda>w. True), server_time = (\<lambda>w. 100), proxy_reachable = True,
      webhook_url = Some ''http://n8n.local/webhook'',
      upstream = FetchResponse 503 ''Service Unavailable''\<rparr>"

definition demo_state :: chat_state where
  "demo_state = \<lparr>st_messages = [], st_input = ''  hello  '', st_loading = False\<rparr>"


definition carol :: user_row where
  "carol = \<lparr>u_id = 3, u_email = ''carol@example.com'', u_password_hash = ''hash:secret-c'',
            u_first_name = ''Carol'', u_last_name = ''C'', u_is_active = True,
            u_email_verified = True, u_last_login = None\<rparr>"

definition alice :: user_row where
  "alice = \<lparr>u_id = 1, u_email = ''alice@example.com'', u_password_hash = ''hash:secret-a'',
            u_first_name = ''Alice'', u_last_name = ''A'', u_is_active = True,
            u_email_verified = True, u_last_login = None\<rparr>"

definition bob :: user_row where
  "bob = \<lparr>u_id = 2, u_email = ''bob@example.com'', u_password_hash = ''hash:secret-b'',
          u_first_name = ''Bob'', u_last_name = ''B'', u_is_active = True,
          u_email_verified = False, u_last_login = None\<rparr>"

definition demo_message :: "nat \<Rightarrow> nat \<Rightarrow> nat \<Rightarrow> string \<Rightarrow> nat \<Rightarrow> message_row" where
  "demo_message i sid uid txt t =
     \<lparr>m_id = i, m_session_id = sid, m_user_id = uid, m_message_text = txt,
      m_message_type = TypeUser, m_webhook_response = None, m_created_at = t,
      m_response_time_ms = None\<rparr>"

definition demo_db :: database where
  "demo_db =
     \<lparr>users = [alice, bob],
      chat_sessions =
        [\<lparr>s_id = 1, s_user_id = 1, s_session_name = ''first'', s_updated_at = 5,
          s_is_active = True\<rparr>,
         \<lparr>s_id = 2, s_user_id = 2, s_session_name = ''second'', s_updated_at = 6,
          s_is_active = True\<rparr>],
      messages =
        [demo_message 1 1 1 ''one'' 10, demo_message 2 1 1 ''two'' 20,
         demo_message 3 1 1 ''three'' 20],
      email_verification_tokens =
        [\<lparr>t_id = 1, t_user_id = 2, t_token = ''tok-1'', t_expires_at = 50, t_used_at = None,
          t_is_used = False\<rparr>,
         \<lparr>t_id = 2, t_user_id = 2, t_token = ''tok-2'', t_expires_at = 60, t_used_at = None,
          t_is_used = False\<rparr>,
         \<lparr>t_id = 3, t_user_id = 1, t_token = ''tok-3'', t_expires_at = 40, t_used_at = Some 30,
          t_is_used = True\<rparr>],
      user_activity_logs = [],
      messages_id_seq = 3,
      tokens_id_seq = 3\<rparr>"

definition demo_cfg :: config where
  "demo_cfg =
     \<lparr>requireEmailVerification = True, webhook_enabled = True,
      webhook_config_url = ''http://n8n.local/webhook'', userActivityLogging = True,
      expiryHours = 24, has_email_service = True\<rparr>"

definition demo_env :: server_env where
  "demo_env =
     \<lparr>db_fails = (\<lambda>q. False), db_now = (\<lambda>q. 100), tie_break = m_id, js_now = 1000,
      webhook = WebhookTimeout, response_time = 7, new_token = ''tok-new'',
      email_sent = True\<rparr>"

section \<open>Lemmas on the document-store variant\<close>

lemma dropWhile_all: "(\<forall>x\<in>set (dropWhile P xs). P x) \<longleftrightarrow> (\<forall>x\<in>set xs. P x)"
proof
  assume a: "\<forall>x\<in>set (dropWhile P xs). P x"
  have "dropWhile P xs = []"
  proof (rule ccontr)
    assume "dropWhile P xs \<noteq> []"
    then have "\<not> P (hd (dropWhile P xs))" "hd (dropWhile P xs) \<in> set (dropWhile P xs)"
      by (simp_all add: hd_dropWhile)
    with a show False by blast
  qed
  then show "\<forall>x\<in>set xs. P x" by (simp add: dropWhile_eq_Nil_conv)
next
  assume "\<forall>x\<in>set xs. P x"
  then show "\<forall>x\<in>set (dropWhile P xs). P x" by (meson set_dropWhileD)
qed

lemma trim_empty_iff: "trim s = [] \<longleftrightarrow> (\<forall>c\<in>set s. is_space c)"
  by (simp add: trim_def dropWhile_eq_Nil_conv dropWhile_all)

lemma hs_rejects:
  "trim (st_input st) = [] \<or> st_loading st \<Longrightarrow> handleSubmit lib env cid st fs = (st, fs, [])"
  by (auto simp: handleSubmit_def)

lemma submit_try_shape:
  "(case submit_try lib env cid st um fs of
      Inl (fs', tr) \<Rightarrow>
        happens_before (Wrote AddUserMessage) CalledN8n tr \<and> Wrote AddErrorMessage \<notin> set tr
        \<and> conv_messages fs' cid = conv_messages fs cid @ (if write_ok env AddUserMessage then [user_doc env um] else [])
        \<and> (write_ok env AddUserMessage \<longleftrightarrow> Wrote AddUserMessage \<in> set tr)
    | Inr (fs', tr) \<Rightarrow>
        happens_before (Wrote AddUserMessage) CalledN8n tr \<and> Wrote AddErrorMessage \<notin> set tr
        \<and> write_ok env AddUserMessage \<and> Wrote AddUserMessage \<in> set tr
        \<and> (\<exists>r. call_n8n lib env um cid = Inr r \<and>
             conv_messages fs' cid = conv_messages fs cid @ [user_doc env um,
               \<lparr>msg_role = RoleAssistant, msg_content = r, msg_createdAt = server_time env AddAssistantMessage\<rparr>]))"
  by (auto simp: submit_try_def addDoc_def updateDoc_def updateConversationTitle_def Let_def user_doc_def
           split: option.splits sum.splits prod.splits if_splits)

lemma submit_try_n8n_fails:
  "call_n8n lib env um cid = Inl e \<Longrightarrow> \<exists>fs' tr. submit_try lib env cid st um fs = Inl (fs', tr)"
  by (auto simp: submit_try_def addDoc_def updateDoc_def updateConversationTitle_def Let_def
           split: option.splits sum.splits prod.splits if_splits)

lemma call_n8n_fails:
  "\<not> proxy_reachable env \<or> \<not> truthy_str (webhook_url env) \<or> upstream_fails (upstream env)
   \<Longrightarrow> \<exists>e. call_n8n lib env um cid = Inl e"
  by (auto simp: call_n8n_def POST_def sendMessageToN8n_def upstream_fails_def ok_status_def
           split: fetch_result.splits)

lemma happens_before_append:
  "happens_before a b xs \<Longrightarrow> b \<noteq> c \<Longrightarrow> happens_before a b (xs @ [c])"
  by (induction xs) auto


lemma hs_shape:
  assumes "trim (st_input st) \<noteq> []" and "\<not> st_loading st"
  shows "(case handleSubmit lib env cid st fs of (st', fs', tr) \<Rightarrow>
           happens_before (Wrote AddUserMessage) CalledN8n tr
           \<and> (write_ok env AddUserMessage \<longleftrightarrow> Wrote AddUserMessage \<in> set tr)
           \<and> (write_ok env AddUserMessage \<longrightarrow>
                (\<exists>rest. conv_messages fs' cid
                   = conv_messages fs cid @ user_doc env (trim (st_input st)) # rest)))"
  using assms submit_try_shape [where lib=lib and env=env and cid=cid and st=st and um="trim (st_input st)" and fs=fs]
  by (auto simp: handleSubmit_def Let_def addDoc_def happens_before_append
           split: sum.splits option.splits if_splits)

lemma hs_order:
  "happens_before (Wrote AddUserMessage) CalledN8n (snd (snd (handleSubmit lib env cid st fs)))"
  using submit_try_shape [where lib=lib and env=env and cid=cid and st=st and um="trim (st_input st)" and fs=fs]
  by (auto simp: handleSubmit_def Let_def addDoc_def happens_before_append
           split: sum.splits option.splits if_splits)

lemma hs_webhook_failure:
  assumes "trim (st_input st) \<noteq> []" and "\<not> st_loading st"
    and "call_n8n lib env (trim (st_input st)) cid = Inl e"
  shows "conv_messages (fst (snd (handleSubmit lib env cid st fs))) cid
           = conv_messages fs cid
             @ (if write_ok env AddUserMessage then [user_doc env (trim (st_input st))] else [])
             @ (if write_ok env AddErrorMessage then [fallback_doc env] else [])"
  using assms submit_try_shape [where lib=lib and env=env and cid=cid and st=st and um="trim (st_input st)" and fs=fs]
    submit_try_n8n_fails [OF assms(3), where st=st and fs=fs]
  by (auto simp: handleSubmit_def Let_def addDoc_def fallback_doc_def
           split: sum.splits option.splits if_splits)




section \<open>Lemmas on the relational variant\<close>

lemma sm_rejects:
  "\<not> truthy_id sessionId \<or> \<not> truthy_str message \<Longrightarrow>
   sendMessage cfg lib env user sessionId message db
     = ((400, ErrorBody ''Session ID and message are required''), db, [])"
  by (auto simp: sendMessage_def)

lemma call_webhook_shape:
  "(case call_webhook cfg lib env user sid db1 of (db2, wr, rt, tr) \<Rightarrow>
      chat_sessions db2 = chat_sessions db1 \<and> users db2 = users db1
      \<and> email_verification_tokens db2 = email_verification_tokens db1
      \<and> user_activity_logs db2 = user_activity_logs db1
      \<and> (\<exists>bots. messages db2 = messages db1 @ bots \<and> length bots \<le> 1
            \<and> (\<forall>b\<in>set bots. m_message_type b = TypeBot)
            \<and> (bots \<noteq> [] \<longleftrightarrow> Inserted TypeBot \<in> set tr))
      \<and> Inserted TypeUser \<notin> set tr
      \<and> (CalledWebhook \<in> set tr \<longleftrightarrow> webhook_enabled cfg \<and> webhook_config_url cfg \<noteq> []))"
  by (auto simp: call_webhook_def Let_def split: webhook_result.splits sum.splits)

lemma call_webhook_fails:
  "webhook_fails (webhook env) \<Longrightarrow> webhook_enabled cfg \<Longrightarrow> webhook_config_url cfg \<noteq> [] \<Longrightarrow>
   call_webhook cfg lib env user sid db1
     = (db1, webhook_failed, Some (response_time env), [CalledWebhook])"
  by (auto simp: call_webhook_def Let_def webhook_fails_def validateStatus_def
           split: webhook_result.splits)

lemma logUserActivity_frame:
  "messages (logUserActivity cfg env uid a db) = messages db
   \<and> chat_sessions (logUserActivity cfg env uid a db) = chat_sessions db
   \<and> users (logUserActivity cfg env uid a db) = users db
   \<and> email_verification_tokens (logUserActivity cfg env uid a db) = email_verification_tokens db"
  by (simp add: logUserActivity_def)

lemma sm_shape:
  assumes "sid \<noteq> 0" and "msg \<noteq> []"
    and "\<not> db_fails env SendSelectSession" and "\<not> db_fails env SendInsertUserMessage"
    and "\<exists>s\<in>set (chat_sessions db). s_id s = sid \<and> s_user_id s = u_id user \<and> s_is_active s"
  shows "(case sendMessage cfg lib env user (Some sid) (Some msg) db of (res, db', tr) \<Rightarrow>
          (\<exists>rest. messages db' = messages db @ user_row_of env user sid msg db # rest
                   \<and> (\<forall>b\<in>set rest. m_message_type b = TypeBot))
          \<and> (\<exists>tr'. tr = Inserted TypeUser # Emitted TypeUser # tr' \<and> Inserted TypeUser \<notin> set tr'))"
proof -
  let ?db1 = "db\<lparr>messages := messages db @ [user_row_of env user sid msg db],
                  messages_id_seq := messages_id_seq db + 1\<rparr>"
  have f: "filter (\<lambda>s. s_id s = sid \<and> s_user_id s = u_id user \<and> s_is_active s) (chat_sessions db) \<noteq> []"
    using assms(5) by (auto simp: filter_empty_conv)
  show ?thesis
    using assms(1-4) f call_webhook_shape [where cfg=cfg and lib=lib and env=env and user=user
        and sid=sid and ?db1.0="?db1"]
    by (auto simp: sendMessage_def truthy_id_def truthy_str_def Let_def user_row_of_def
          logUserActivity_frame split: prod.splits)
qed

lemma sm_order:
  "happens_before (Inserted TypeUser) CalledWebhook
     (snd (snd (sendMessage cfg lib env user sessionId message db)))"
  by (auto simp: sendMessage_def Let_def split: prod.splits option.splits)

lemma sm_called:
  assumes "CalledWebhook \<in> set (snd (snd (sendMessage cfg lib env user (Some sid) (Some msg) db)))"
  shows "user_row_of env user sid msg db
           \<in> set (messages (fst (snd (sendMessage cfg lib env user (Some sid) (Some msg) db))))"
proof -
  let ?db1 = "db\<lparr>messages := messages db @ [user_row_of env user sid msg db],
                  messages_id_seq := messages_id_seq db + 1\<rparr>"
  show ?thesis
    using assms call_webhook_shape [where cfg=cfg and lib=lib and env=env and user=user
        and sid=sid and ?db1.0="?db1"]
    by (auto simp: sendMessage_def Let_def user_row_of_def logUserActivity_frame
          split: prod.splits if_splits)
qed

lemma sm_webhook_failure:
  assumes "sid \<noteq> 0" and "msg \<noteq> []"
    and "\<not> db_fails env SendSelectSession" and "\<not> db_fails env SendInsertUserMessage"
    and "\<exists>s\<in>set (chat_sessions db). s_id s = sid \<and> s_user_id s = u_id user \<and> s_is_active s"
    and "webhook_enabled cfg" and "webhook_config_url cfg \<noteq> []"
    and "webhook_fails (webhook env)"
  shows "messages (fst (snd (sendMessage cfg lib env user (Some sid) (Some msg) db)))
           = messages db @ [user_row_of env user sid msg db]
         \<and> (\<not> db_fails env SendUpdateSession \<longrightarrow>
              fst (sendMessage cfg lib env user (Some sid) (Some msg) db)
                = (200, SendBody (user_row_of env user sid msg db) webhook_failed
                          (Some (response_time env))))"
proof -
  have f: "filter (\<lambda>s. s_id s = sid \<and> s_user_id s = u_id user \<and> s_is_active s) (chat_sessions db) \<noteq> []"
    using assms(5) by (auto simp: filter_empty_conv)
  show ?thesis
    using assms(1-4) f
    by (simp add: sendMessage_def truthy_id_def truthy_str_def Let_def user_row_of_def
          logUserActivity_frame call_webhook_fails [OF assms(8) assms(6) assms(7)])
qed

lemma happens_before_mem: "happens_before a b tr \<Longrightarrow> b \<in> set tr \<Longrightarrow> a \<in> set tr"
  by (induction tr) auto

lemma hs_called:
  assumes "CalledN8n \<in> set (snd (snd (handleSubmit lib env cid st fs)))"
  shows "user_doc env (trim (st_input st))
           \<in> set (conv_messages (fst (snd (handleSubmit lib env cid st fs))) cid)"
proof -
  have nb: "trim (st_input st) \<noteq> []" "\<not> st_loading st"
    using assms by (auto simp: handleSubmit_def split: if_splits)
  have "Wrote AddUserMessage \<in> set (snd (snd (handleSubmit lib env cid st fs)))"
    using happens_before_mem [OF hs_order assms] .
  then show ?thesis
    using hs_shape [OF nb, where lib=lib and env=env and cid=cid and fs=fs]
    by (auto split: prod.splits)
qed

lemma call_webhook_answer:
  assumes "webhook env = WebhookResponse status data" and "status < 500"
    and "botMessageText lib data = Inr t" and "\<not> db_fails env SendInsertBotMessage"
    and "webhook_enabled cfg" and "webhook_config_url cfg \<noteq> []"
  shows "\<exists>bot. messages (fst (call_webhook cfg lib env user sid db1)) = messages db1 @ [bot]
           \<and> m_message_type bot = TypeBot \<and> m_message_text bot = text_param lib t"
  using assms by (simp add: call_webhook_def Let_def validateStatus_def)

lemma sm_webhook_answer:
  assumes "sid \<noteq> 0" and "msg \<noteq> []"
    and "\<not> db_fails env SendSelectSession" and "\<not> db_fails env SendInsertUserMessage"
    and "\<exists>s\<in>set (chat_sessions db). s_id s = sid \<and> s_user_id s = u_id user \<and> s_is_active s"
    and "webhook_enabled cfg" and "webhook_config_url cfg \<noteq> []"
    and "webhook env = WebhookResponse status data" and "status < 500"
    and "botMessageText lib data = Inr t" and "\<not> db_fails env SendInsertBotMessage"
  shows "\<exists>bot. messages (fst (snd (sendMessage cfg lib env user (Some sid) (Some msg) db)))
                 = messages db @ [user_row_of env user sid msg db, bot]
           \<and> m_message_type bot = TypeBot \<and> m_message_text bot = text_param lib t"
proof -
  let ?db1 = "db\<lparr>messages := messages db @ [user_row_of env user sid msg db],
                  messages_id_seq := messages_id_seq db + 1\<rparr>"
  have f: "filter (\<lambda>s. s_id s = sid \<and> s_user_id s = u_id user \<and> s_is_active s) (chat_sessions db) \<noteq> []"
    using assms(5) by (auto simp: filter_empty_conv)
  obtain bot where b: "messages (fst (call_webhook cfg lib env user sid ?db1)) = messages ?db1 @ [bot]"
      "m_message_type bot = TypeBot" "m_message_text bot = text_param lib t"
    using call_webhook_answer [OF assms(8) assms(9) assms(10) assms(11) assms(6) assms(7)] by blast
  show ?thesis
    using assms(1-4) f b
    by (auto simp: sendMessage_def truthy_id_def truthy_str_def Let_def user_row_of_def
          logUserActivity_frame split: prod.splits)
qed

lemma desc_sorted:
  assumes "\<And>x y. k x \<le> k y \<Longrightarrow> f x \<le> f y"
  shows "sorted_wrt (\<lambda>x y. f y \<le> f x) (rev (sort_key k xs))"
proof -
  have "sorted_wrt (\<lambda>x y. k x \<le> k y) (sort_key k xs)"
    using sorted_sort_key [of k xs] by (simp add: sorted_wrt_map)
  then have "sorted_wrt (\<lambda>x y. f x \<le> f y) (sort_key k xs)"
    by (rule sorted_wrt_mono_rel [rotated]) (simp add: assms)
  then show ?thesis by (simp add: sorted_wrt_rev)
qed

lemma page_sorted:
  assumes "\<And>x y. k x \<le> k y \<Longrightarrow> f x \<le> f y"
  shows "sorted (map f (rev (take l (drop n (rev (sort_key k xs))))))"
proof -
  have "sorted_wrt (\<lambda>x y. f y \<le> f x) (take l (drop n (rev (sort_key k xs))))"
    by (intro sorted_wrt_take sorted_wrt_drop desc_sorted assms)
  then show ?thesis
    by (simp add: sorted_wrt_map sorted_wrt_rev)
qed

lemma page_distinct:
  assumes "distinct (map f xs)"
  shows "distinct (map f (rev (take l (drop n (rev (sort_key k xs))))))"
proof -
  have "distinct (map f (sort_key k xs))"
    using assms by (simp add: distinct_map)
  then have "distinct (map f (rev (sort_key k xs)))"
    by (simp add: distinct_map)
  then have "distinct (take l (drop n (map f (rev (sort_key k xs)))))"
    by simp
  then have "distinct (map f (take l (drop n (rev (sort_key k xs)))))"
    by (simp add: take_map drop_map)
  then have "distinct (rev (map f (take l (drop n (rev (sort_key k xs))))))"
    by simp
  then show ?thesis by (simp add: rev_map)
qed

lemma page_subset:
  "set (rev (take l (drop n (rev (sort_key k xs))))) \<subseteq> set xs"
proof -
  have "set (take l (drop n (rev (sort_key k xs)))) \<subseteq> set (rev (sort_key k xs))"
    by (meson set_take_subset set_drop_subset subset_trans)
  then show ?thesis by simp
qed

lemma pages_newest_first:
  assumes "\<And>x y. k x \<le> k y \<Longrightarrow> f x \<le> f y"
    and "a \<in> set (take l (drop (n + l) (rev (sort_key k xs))))"
    and "b \<in> set (take l (drop n (rev (sort_key k xs))))"
  shows "f a \<le> f b"
proof -
  let ?D = "drop n (rev (sort_key k xs))"
  have "sorted_wrt (\<lambda>x y. f y \<le> f x) ?D"
    by (intro sorted_wrt_drop desc_sorted assms(1))
  then have "sorted_wrt (\<lambda>x y. f y \<le> f x) (take l ?D @ drop l ?D)"
    by (simp only: append_take_drop_id)
  then have *: "\<forall>x\<in>set (take l ?D). \<forall>y\<in>set (drop l ?D). f y \<le> f x"
    unfolding sorted_wrt_append by blast
  have "drop (n + l) (rev (sort_key k xs)) = drop l ?D" by (simp add: add.commute)
  then have "a \<in> set (drop l ?D)" using assms(2) by (metis in_set_takeD)
  then show ?thesis using * assms(3) by blast
qed

lemma created_at_key:
  "(m_created_at x, tie_break env x) \<le> (m_created_at y, tie_break env y)
   \<Longrightarrow> m_created_at x \<le> m_created_at y"
  by auto

lemma gm_rows:
  assumes "getMessages env user sid page_q limit_q db = (200, MessagesBody rows)"
  shows "\<exists>l n. rows = rev (take l (drop n (rev (sort_key
           (\<lambda>m. (m_created_at m, tie_break env m))
           (filter (\<lambda>m. m_session_id m = sid) (messages db))))))"
  using assms
  by (auto simp: getMessages_def Let_def internal_error_def not_found_def
        order_by_created_at_desc_def split: if_splits)

lemma gm_pages:
  assumes "getMessages env user sid (Some p) (Some l) db = (200, MessagesBody newer)"
    and "getMessages env user sid (Some (p + 1)) (Some l) db = (200, MessagesBody older)"
  shows "\<forall>a\<in>set older. \<forall>b\<in>set newer. m_created_at a \<le> m_created_at b"
proof -
  let ?S = "rev (sort_key (\<lambda>m. (m_created_at m, tie_break env m))
                  (filter (\<lambda>m. m_session_id m = sid) (messages db)))"
  have l: "0 \<le> l" and o: "0 \<le> (p - 1) * l"
    and n: "newer = rev (take (nat l) (drop (nat ((p - 1) * l)) ?S))"
    using assms(1)
    by (auto simp: getMessages_def Let_def internal_error_def not_found_def
          order_by_created_at_desc_def split: if_splits)
  have od: "older = rev (take (nat l) (drop (nat (p * l)) ?S))"
    using assms(2)
    by (auto simp: getMessages_def Let_def internal_error_def not_found_def
          order_by_created_at_desc_def split: if_splits)
  have "p * l = (p - 1) * l + l" by (simp add: algebra_simps)
  then have e: "nat (p * l) = nat ((p - 1) * l) + nat l"
    using l o by (simp add: nat_add_distrib)
  show ?thesis
    using pages_newest_first [where f=m_created_at and l="nat l" and n="nat ((p - 1) * l)"
        and k="\<lambda>m. (m_created_at m, tie_break env m)", OF created_at_key]
    unfolding n od e by auto
qed

lemma foreign_filter:
  assumes "\<forall>s\<in>set (chat_sessions db). s_id s = sid \<longrightarrow> s_user_id s \<noteq> u_id user"
  shows "filter (\<lambda>s. s_id s = sid \<and> s_user_id s = u_id user \<and> P s) (chat_sessions db) = []"
  using assms by (auto simp: filter_empty_conv)

lemma gm_foreign:
  assumes "\<forall>s\<in>set (chat_sessions db). s_id s = sid \<longrightarrow> s_user_id s \<noteq> u_id user"
  shows "getMessages env user sid page_q limit_q db
           = (if db_fails env GetSelectSession then internal_error else not_found)"
  using foreign_filter [OF assms, where P="\<lambda>s. True"]
  by (simp add: getMessages_def Let_def)

lemma sm_foreign:
  assumes "\<forall>s\<in>set (chat_sessions db). s_id s = sid \<longrightarrow> s_user_id s \<noteq> u_id user"
  shows "sendMessage cfg lib env user (Some sid) message db
           = (if \<not> truthy_id (Some sid) \<or> \<not> truthy_str message
              then (400, ErrorBody ''Session ID and message are required'')
              else if db_fails env SendSelectSession then internal_error else not_found,
              db, [])"
  using foreign_filter [OF assms, where P=s_is_active]
  by (auto simp: sendMessage_def Let_def truthy_str_def split: option.splits)

lemma ds_foreign:
  assumes "\<forall>s\<in>set (chat_sessions db). s_id s = sid \<longrightarrow> s_user_id s \<noteq> u_id user"
  shows "deleteSession cfg env user sid db
           = (if db_fails env DeleteUpdateSession then internal_error else not_found, db)"
  using foreign_filter [OF assms, where P=s_is_active]
  by (simp add: deleteSession_def Let_def)

lemma filter_key_unique:
  "distinct (map f xs) \<Longrightarrow> x \<in> set xs \<Longrightarrow>
   filter (\<lambda>u. f u = f x \<and> P u) xs = (if P x then [x] else [])"
proof (induction xs)
  case Nil
  then show ?case by simp
next
  case (Cons a xs)
  show ?case
  proof (cases "a = x")
    case True
    have "f x \<notin> f ` set xs" using Cons.prems(1) True by simp
    then have "\<And>u. u \<in> set xs \<Longrightarrow> f u \<noteq> f x" by (metis imageI)
    then have "filter (\<lambda>u. f u = f x \<and> P u) xs = []"
      by (simp add: filter_empty_conv)
    then show ?thesis using True by simp
  next
    case False
    then have x: "x \<in> set xs" using Cons.prems(2) by simp
    then have "f a \<noteq> f x" using Cons.prems(1) by auto
    then show ?thesis using Cons.IH x Cons.prems(1) by simp
  qed
qed

lemma login_unverified:
  assumes "requireEmailVerification cfg" and "distinct (map u_email (users db))"
    and "account \<in> set (users db)" and "u_is_active account" and "\<not> u_email_verified account"
    and "u_email account \<noteq> []" and "password \<noteq> []"
  shows "login cfg lib env (Some (u_email account)) (Some password) db
           = (if db_fails env LoginSelectUser then internal_error
              else (403, ErrorCodeBody ''Please verify your email before logging in''
                           ''EMAIL_NOT_VERIFIED'' (Some (u_email account))), db)"
proof -
  have "filter (\<lambda>u. u_email u = u_email account \<and> u_is_active u) (users db) = [account]"
    using filter_key_unique [OF assms(2) assms(3), where P=u_is_active] assms(4) by simp
  then show ?thesis
    using assms(1,5,6,7) by (simp add: login_def truthy_str_def)
qed

lemma login_unverified_no_token:
  assumes "requireEmailVerification cfg" and "distinct (map u_email (users db))"
    and "account \<in> set (users db)" and "u_is_active account" and "\<not> u_email_verified account"
  shows "session_token (fst (login cfg lib env (Some (u_email account)) password db)) = None"
proof -
  have "filter (\<lambda>u. u_email u = u_email account \<and> u_is_active u) (users db) = [account]"
    using filter_key_unique [OF assms(2) assms(3), where P=u_is_active] assms(4) by simp
  then show ?thesis
    using assms(1,5)
    by (auto simp: login_def internal_error_def split: option.splits)
qed

lemma login_unverified_any:
  assumes "requireEmailVerification cfg" and "distinct (map u_email (users db))"
    and "account \<in> set (users db)" and "u_is_active account" and "\<not> u_email_verified account"
    and "u_email account \<noteq> []"
  shows "login cfg lib env (Some (u_email account)) pw_opt db
           = (if \<not> truthy_str pw_opt then (400, ErrorBody ''Email and password are required'')
              else if db_fails env LoginSelectUser then internal_error
              else (403, ErrorCodeBody ''Please verify your email before logging in''
                           ''EMAIL_NOT_VERIFIED'' (Some (u_email account))), db)"
proof (cases "truthy_str pw_opt")
  case True
  then obtain pw where "pw_opt = Some pw" "pw \<noteq> []"
    by (auto simp: truthy_str_def split: option.splits)
  then show ?thesis
    using login_unverified [OF assms(1-6), where password=pw and lib=lib and env=env]
    by (simp add: truthy_str_def)
next
  case False
  then show ?thesis by (simp add: login_def)
qed




section \<open>The claims\<close>

text \<open>
  C1. In both variants the user message is persisted before the webhook is called: in the list
  of effects of a send no webhook call occurs unless the insert of the user message occurs
  earlier, and whenever the webhook was called the user message is among the stored messages
  afterwards. A send of a non-empty text to an existing conversation of the caller, with the
  database (the store) accepting the write, persists the user message whatever the webhook
  does; when the webhook call fails, the stored messages are exactly the earlier ones followed
  by the user message.
\<close>

theorem C1_user_message_first:
  "(case sendMessage cfg lib env user (Some sid) (Some msg) db of (res, db', tr) \<Rightarrow>
      happens_before (Inserted TypeUser) CalledWebhook tr
      \<and> (CalledWebhook \<in> set tr \<longrightarrow> user_row_of env user sid msg db \<in> set (messages db'))
      \<and> (sid \<noteq> 0 \<and> msg \<noteq> [] \<and> \<not> db_fails env SendSelectSession
           \<and> \<not> db_fails env SendInsertUserMessage
           \<and> (\<exists>s\<in>set (chat_sessions db).
                 s_id s = sid \<and> s_user_id s = u_id user \<and> s_is_active s) \<longrightarrow>
          Inserted TypeUser \<in> set tr
          \<and> (\<exists>rest. messages db' = messages db @ user_row_of env user sid msg db # rest)
          \<and> (webhook_enabled cfg \<and> webhook_config_url cfg \<noteq> [] \<and> webhook_fails (webhook env)
               \<longrightarrow> messages db' = messages db @ [user_row_of env user sid msg db])))
   \<and> (case handleSubmit lib cenv cid st fs of (st', fs', tr) \<Rightarrow>
      happens_before (Wrote AddUserMessage) CalledN8n tr
      \<and> (CalledN8n \<in> set tr \<longrightarrow> user_doc cenv (trim (st_input st)) \<in> set (conv_messages fs' cid))
      \<and> (trim (st_input st) \<noteq> [] \<and> \<not> st_loading st \<and> write_ok cenv AddUserMessage \<longrightarrow>
          Wrote AddUserMessage \<in> set tr
          \<and> (\<exists>rest. conv_messages fs' cid
                = conv_messages fs cid @ user_doc cenv (trim (st_input st)) # rest)))"
proof -
  obtain res db' tr where s: "sendMessage cfg lib env user (Some sid) (Some msg) db = (res, db', tr)"
    by (cases "sendMessage cfg lib env user (Some sid) (Some msg) db") auto
  obtain st' fs' tr' where h: "handleSubmit lib cenv cid st fs = (st', fs', tr')"
    by (cases "handleSubmit lib cenv cid st fs") auto
  have a1: "happens_before (Inserted TypeUser) CalledWebhook tr"
    using sm_order [where cfg=cfg and lib=lib and env=env and user=user and sessionId="Some sid"
        and message="Some msg" and db=db] s by simp
  have a2: "CalledWebhook \<in> set tr \<longrightarrow> user_row_of env user sid msg db \<in> set (messages db')"
    using sm_called [where cfg=cfg and lib=lib and env=env and user=user and sid=sid
        and msg=msg and db=db] s by simp
  have a3: "Inserted TypeUser \<in> set tr
          \<and> (\<exists>rest. messages db' = messages db @ user_row_of env user sid msg db # rest)
          \<and> (webhook_enabled cfg \<and> webhook_config_url cfg \<noteq> [] \<and> webhook_fails (webhook env)
               \<longrightarrow> messages db' = messages db @ [user_row_of env user sid msg db])"
    if p: "sid \<noteq> 0" "msg \<noteq> []" "\<not> db_fails env SendSelectSession"
      "\<not> db_fails env SendInsertUserMessage"
      "\<exists>s\<in>set (chat_sessions db). s_id s = sid \<and> s_user_id s = u_id user \<and> s_is_active s"
    using sm_shape [OF p, where cfg=cfg and lib=lib] sm_webhook_failure [OF p, where cfg=cfg and lib=lib] s
    by auto
  have b1: "happens_before (Wrote AddUserMessage) CalledN8n tr'"
    using hs_order [where lib=lib and env=cenv and cid=cid and st=st and fs=fs] h by simp
  have b2: "CalledN8n \<in> set tr' \<longrightarrow> user_doc cenv (trim (st_input st)) \<in> set (conv_messages fs' cid)"
    using hs_called [where lib=lib and env=cenv and cid=cid and st=st and fs=fs] h by simp
  have b3: "Wrote AddUserMessage \<in> set tr'
          \<and> (\<exists>rest. conv_messages fs' cid
                = conv_messages fs cid @ user_doc cenv (trim (st_input st)) # rest)"
    if q: "trim (st_input st) \<noteq> []" "\<not> st_loading st" "write_ok cenv AddUserMessage"
    using hs_shape [OF q(1) q(2), where lib=lib and env=cenv and cid=cid and fs=fs] q(3) h by auto
  show ?thesis
    unfolding s h using a1 a2 a3 b1 b2 b3 by simp
qed

theorem C1_user_message_first_witness:
  "webhook_fails (webhook demo_env)
   \<and> upstream_fails (upstream demo_client_env)
   \<and> trim (st_input demo_state) = ''hello''
   \<and> (case sendMessage demo_cfg demo_lib demo_env alice (Some 1) (Some ''hello'') demo_db of
        (res, db', tr) \<Rightarrow>
          tr = [Inserted TypeUser, Emitted TypeUser, CalledWebhook, TouchedSession]
          \<and> messages db' = messages demo_db @ [user_row_of demo_env alice 1 ''hello'' demo_db])
   \<and> (case handleSubmit demo_lib demo_client_env ''c1'' demo_state demo_fs of
        (st', fs', tr) \<Rightarrow>
          tr = [Wrote AddUserMessage, Wrote UpdateTitle, Wrote UpdateTimestamp, CalledN8n,
                Wrote AddErrorMessage]
          \<and> conv_messages fs' ''c1''
              = [user_doc demo_client_env ''hello'', fallback_doc demo_client_env])"
  using C1_user_message_first [where cfg=demo_cfg and lib=demo_lib and env=demo_env
      and user=alice and sid=1 and msg="''hello''" and db=demo_db and cenv=demo_client_env
      and cid="''c1''" and st=demo_state and fs=demo_fs]
  by (simp add: demo_db_def demo_env_def demo_cfg_def demo_lib_def alice_def demo_message_def
        demo_fs_def demo_client_env_def demo_state_def sendMessage_def call_webhook_def handleSubmit_def submit_try_def
        addDoc_def updateDoc_def updateConversationTitle_def call_n8n_def POST_def
        sendMessageToN8n_def webhook_fails_def upstream_fails_def ok_status_def
        truthy_id_def truthy_str_def user_row_of_def user_doc_def fallback_doc_def
        logUserActivity_def trim_def is_space_def Let_def)

text \<open>
  C2, as amended. In the document-store variant, a submit whose webhook call fails (the route
  is not reached, no webhook is configured, the webhook does not answer, or it answers with a
  status outside 200 to 299) adds to the conversation the user message and then one assistant
  message whose content is exactly \<^verbatim>\<open>Sorry, an error occurred. Please try again.\<close>, each if
  the store accepts the write, and nothing else. In the relational variant no fallback
  message exists: when the webhook request fails, times out or answers with a status of 500
  or more, \<^verbatim>\<open>sendMessage\<close> stores the user message only and reports
  \<^verbatim>\<open>{error: 'Failed to get response from webhook'}\<close> in its response; an answer with a
  status below 500 is taken for the reply, and its text is stored as the assistant message.
\<close>

theorem C2_fallback_message:
  "(trim (st_input st) \<noteq> [] \<and> \<not> st_loading st
      \<and> (\<not> proxy_reachable cenv \<or> \<not> truthy_str (webhook_url cenv)
           \<or> upstream_fails (upstream cenv)) \<longrightarrow>
      conv_messages (fst (snd (handleSubmit lib cenv cid st fs))) cid
        = conv_messages fs cid
          @ (if write_ok cenv AddUserMessage then [user_doc cenv (trim (st_input st))] else [])
          @ (if write_ok cenv AddErrorMessage then [fallback_doc cenv] else []))
   \<and> msg_role (fallback_doc cenv) = RoleAssistant
   \<and> msg_content (fallback_doc cenv) = JStr ''Sorry, an error occurred. Please try again.''
   \<and> (sid \<noteq> 0 \<and> msg \<noteq> [] \<and> \<not> db_fails env SendSelectSession
        \<and> \<not> db_fails env SendInsertUserMessage
        \<and> (\<exists>s\<in>set (chat_sessions db).
              s_id s = sid \<and> s_user_id s = u_id user \<and> s_is_active s)
        \<and> webhook_enabled cfg \<and> webhook_config_url cfg \<noteq> [] \<longrightarrow>
      (webhook_fails (webhook env) \<longrightarrow>
         messages (fst (snd (sendMessage cfg lib env user (Some sid) (Some msg) db)))
           = messages db @ [user_row_of env user sid msg db]
         \<and> (\<not> db_fails env SendUpdateSession \<longrightarrow>
              fst (sendMessage cfg lib env user (Some sid) (Some msg) db)
                = (200, SendBody (user_row_of env user sid msg db) webhook_failed
                          (Some (response_time env)))))
      \<and> (\<forall>status data t. webhook env = WebhookResponse status data \<and> status < 500
            \<and> botMessageText lib data = Inr t \<and> \<not> db_fails env SendInsertBotMessage \<longrightarrow>
          (\<exists>bot. messages (fst (snd (sendMessage cfg lib env user (Some sid) (Some msg) db)))
                    = messages db @ [user_row_of env user sid msg db, bot]
                  \<and> m_message_type bot = TypeBot
                  \<and> m_message_text bot = text_param lib t)))"
proof -
  have a: "conv_messages (fst (snd (handleSubmit lib cenv cid st fs))) cid
        = conv_messages fs cid
          @ (if write_ok cenv AddUserMessage then [user_doc cenv (trim (st_input st))] else [])
          @ (if write_ok cenv AddErrorMessage then [fallback_doc cenv] else [])"
    if p: "trim (st_input st) \<noteq> []" "\<not> st_loading st"
      and q: "\<not> proxy_reachable cenv \<or> \<not> truthy_str (webhook_url cenv)
           \<or> upstream_fails (upstream cenv)"
  proof -
    obtain e where "call_n8n lib cenv (trim (st_input st)) cid = Inl e"
      using call_n8n_fails [OF q] by blast
    then show ?thesis using hs_webhook_failure [OF p] by blast
  qed
  have b: "msg_role (fallback_doc cenv) = RoleAssistant
     \<and> msg_content (fallback_doc cenv) = JStr ''Sorry, an error occurred. Please try again.''"
    by (simp add: fallback_doc_def fallback_text_def)
  show ?thesis
    using a b sm_webhook_failure [where cfg=cfg and lib=lib and env=env and user=user
        and sid=sid and msg=msg and db=db]
      sm_webhook_answer [where cfg=cfg and lib=lib and env=env and user=user
        and sid=sid and msg=msg and db=db]
    by blast
qed

theorem C2_fallback_message_witness:
  "trim (st_input demo_state) = ''hello''
   \<and> upstream demo_client_env = FetchResponse 503 ''Service Unavailable''
   \<and> conv_messages (fst (snd (handleSubmit demo_lib demo_client_env ''c1'' demo_state demo_fs))) ''c1''
       = [user_doc demo_client_env ''hello'', fallback_doc demo_client_env]
   \<and> webhook demo_env = WebhookTimeout
   \<and> messages (fst (snd (sendMessage demo_cfg demo_lib demo_env alice (Some 1) (Some ''hello'') demo_db)))
       = messages demo_db @ [user_row_of demo_env alice 1 ''hello'' demo_db]"
  using C2_fallback_message [where cfg=demo_cfg and lib=demo_lib and env=demo_env
      and user=alice and sid=1 and msg="''hello''" and db=demo_db and cenv=demo_client_env
      and cid="''c1''" and st=demo_state and fs=demo_fs]
  by (simp add: demo_db_def demo_env_def demo_cfg_def demo_lib_def alice_def demo_message_def
        demo_fs_def demo_client_env_def demo_state_def webhook_fails_def upstream_fails_def ok_status_def
        truthy_str_def trim_def is_space_def)

text \<open>
  C2 as stated fails in the relational variant: after a timeout no assistant message is
  stored, and a 404 answer carrying \<^verbatim>\<open>{"text": "nope"}\<close> is stored as the reply \<^verbatim>\<open>nope\<close>.
\<close>

theorem C2_counterexample:
  "webhook demo_env = WebhookTimeout
   \<and> fst (sendMessage demo_cfg demo_lib demo_env alice (Some 1) (Some ''hello'') demo_db)
       = (200, SendBody (user_row_of demo_env alice 1 ''hello'' demo_db)
                 (JObj [(''error'', JStr ''Failed to get response from webhook'')]) (Some 7))
   \<and> map m_message_type (messages demo_db) = [TypeUser, TypeUser, TypeUser]
   \<and> map m_message_type
        (messages (fst (snd (sendMessage demo_cfg demo_lib demo_env alice (Some 1)
           (Some ''hello'') demo_db))))
       = [TypeUser, TypeUser, TypeUser, TypeUser]
   \<and> map m_message_type
        (messages (fst (snd (sendMessage demo_cfg demo_lib
           (demo_env\<lparr>webhook := WebhookResponse 404 (JObj [(''text'', JStr ''nope'')])\<rparr>)
           alice (Some 1) (Some ''hello'') demo_db))))
       = [TypeUser, TypeUser, TypeUser, TypeUser, TypeBot]
   \<and> map m_message_text
        (messages (fst (snd (sendMessage demo_cfg demo_lib
           (demo_env\<lparr>webhook := WebhookResponse 404 (JObj [(''text'', JStr ''nope'')])\<rparr>)
           alice (Some 1) (Some ''hello'') demo_db))))
       = [''one'', ''two'', ''three'', ''hello'', ''nope'']"
  by (simp add: demo_db_def demo_env_def demo_cfg_def demo_lib_def alice_def demo_message_def sendMessage_def call_webhook_def webhook_failed_def
        truthy_id_def truthy_str_def user_row_of_def logUserActivity_def Let_def
        validateStatus_def botMessageText_def)

text \<open>
  C3, as amended. The extraction of the \<^verbatim>\<open>/api/chat\<close> route gives \<^verbatim>\<open>hi\<close> for the JSON object
  \<^verbatim>\<open>{"output": "hi"}\<close>, \<^verbatim>\<open>hi\<close> for the bare JSON string \<^verbatim>\<open>"hi"\<close> and the raw body for a body that is
  not JSON or is \<^verbatim>\<open>null\<close>; for any other parsed value it gives the first truthy one
  of the fields \<^verbatim>\<open>responseBody\<close>, \<^verbatim>\<open>redacted\<close>, \<^verbatim>\<open>message\<close>, \<^verbatim>\<open>output\<close>, \<^verbatim>\<open>text\<close>, in this order,
  and the serialization of the whole value when none is truthy. The extraction of the
  relational variant (\<^verbatim>\<open>botMessageText\<close>) keeps a string as it is, throws on \<^verbatim>\<open>null\<close>, and for
  any other value gives the first truthy one of \<^verbatim>\<open>text\<close> and \<^verbatim>\<open>response\<close>, and the indented
  serialization of the whole value when neither is truthy; it does not know \<^verbatim>\<open>output\<close>.
\<close>

theorem C3_extraction:
  "(json_parse lib r1 = Some (JObj [(''output'', JStr ''hi'')]) \<longrightarrow>
      extract_response_text lib r1 = JStr ''hi'')
   \<and> (json_parse lib r2 = Some (JStr ''hi'') \<longrightarrow> extract_response_text lib r2 = JStr ''hi'')
   \<and> (json_parse lib r3 = None \<longrightarrow> extract_response_text lib r3 = JStr r3)
   \<and> (json_parse lib r5 = Some JNull \<longrightarrow> extract_response_text lib r5 = JStr r5)
   \<and> (json_parse lib r4 = Some data \<and> \<not> is_string data \<and> \<not> nullish data \<longrightarrow>
        extract_response_text lib r4 =
          (case first_truthy data known_fields of
             Some v \<Rightarrow> v
           | None \<Rightarrow> JStr (json_stringify lib data)))
   \<and> botMessageText lib (JStr s) = Inr (JStr s)
   \<and> botMessageText lib JNull = Inl TypeError
   \<and> (\<not> is_string wr \<and> \<not> nullish wr \<longrightarrow>
        botMessageText lib wr =
          Inr (case first_truthy wr [''text'', ''response''] of
                 Some v \<Rightarrow> v
               | None \<Rightarrow> JStr (json_stringify_indent lib wr)))"
  by (auto simp add: extract_response_text_def probe_fields_def botMessageText_def
        known_fields_def)

theorem C3_extraction_witness:
  "extract_response_text demo_lib ''{\"output\": \"hi\"}'' = JStr ''hi''
   \<and> extract_response_text demo_lib ''\"hi\"'' = JStr ''hi''
   \<and> extract_response_text demo_lib ''plain text'' = JStr ''plain text''
   \<and> extract_response_text demo_lib ''null'' = JStr ''null''
   \<and> extract_response_text demo_lib ''{\"text\": \"nope\"}'' = JStr ''nope''
   \<and> botMessageText demo_lib (JStr ''hi'') = Inr (JStr ''hi'')
   \<and> botMessageText demo_lib (JObj [(''text'', JStr ''nope'')]) = Inr (JStr ''nope'')"
  using C3_extraction [where lib=demo_lib and ?r1.0="''{\"output\": \"hi\"}''"
      and ?r2.0="''\"hi\"''" and ?r3.0="''plain text''" and ?r5.0="''null''" and ?r4.0="''{\"text\": \"nope\"}''"
      and data="JObj [(''text'', JStr ''nope'')]" and s="''hi''"
      and wr="JObj [(''text'', JStr ''nope'')]"]
  by (simp add: demo_lib_def demo_parse_def known_fields_def)

text \<open>
  C3 as stated fails for the extraction of the relational variant: for the object
  \<^verbatim>\<open>{"output": "hi"}\<close> it gives the indented serialization of the object, not \<^verbatim>\<open>hi\<close>.
\<close>

theorem C3_counterexample:
  "botMessageText demo_lib (JObj [(''output'', JStr ''hi'')])
     = Inr (JStr ''{\<newline>  \"output\": \"hi\"\<newline>}'')
   \<and> botMessageText demo_lib (JObj [(''output'', JStr ''hi'')]) \<noteq> Inr (JStr ''hi'')"
  by (simp add: botMessageText_def demo_lib_def demo_stringify_indent_def)

text \<open>
  C4, as amended. Whenever \<^verbatim>\<open>GET /api/chat/sessions/:sessionId/messages\<close> answers with a
  page, the page holds messages of that session in ascending order of creation time, for
  every page number and page size; the order is strictly ascending when the creation times
  of the session's messages are pairwise distinct. Across a page boundary the order runs the
  other way: no message of page \<open>p + 1\<close> is newer than a message of page \<open>p\<close>.
\<close>

theorem C4_pages_ascending:
  "(getMessages env user sid page_q limit_q db = (200, MessagesBody rows) \<longrightarrow>
      sorted (map m_created_at rows)
      \<and> set rows \<subseteq> {m \<in> set (messages db). m_session_id m = sid}
      \<and> (distinct (map m_created_at (filter (\<lambda>m. m_session_id m = sid) (messages db))) \<longrightarrow>
           sorted_wrt (<) (map m_created_at rows)))
   \<and> (getMessages env user sid (Some p) (Some l) db = (200, MessagesBody newer)
        \<and> getMessages env user sid (Some (p + 1)) (Some l) db = (200, MessagesBody older) \<longrightarrow>
      (\<forall>a\<in>set older. \<forall>b\<in>set newer. m_created_at a \<le> m_created_at b))"
proof -
  have a: "sorted (map m_created_at rows)
      \<and> set rows \<subseteq> {m \<in> set (messages db). m_session_id m = sid}
      \<and> (distinct (map m_created_at (filter (\<lambda>m. m_session_id m = sid) (messages db))) \<longrightarrow>
           sorted_wrt (<) (map m_created_at rows))"
    if g: "getMessages env user sid page_q limit_q db = (200, MessagesBody rows)"
  proof -
    obtain l n where r: "rows = rev (take l (drop n (rev (sort_key
           (\<lambda>m. (m_created_at m, tie_break env m))
           (filter (\<lambda>m. m_session_id m = sid) (messages db))))))"
      using gm_rows [OF g] by blast
    have s: "sorted (map m_created_at rows)"
      unfolding r by (rule page_sorted) (rule created_at_key)
    have "set rows \<subseteq> set (filter (\<lambda>m. m_session_id m = sid) (messages db))"
      unfolding r by (rule page_subset)
    then have m: "set rows \<subseteq> {m \<in> set (messages db). m_session_id m = sid}" by auto
    have "sorted_wrt (<) (map m_created_at rows)"
      if d: "distinct (map m_created_at (filter (\<lambda>m. m_session_id m = sid) (messages db)))"
    proof -
      have "distinct (map m_created_at rows)" unfolding r using d by (rule page_distinct)
      with s show ?thesis by (simp add: strict_sorted_iff)
    qed
    with s m show ?thesis by blast
  qed
  show ?thesis using a gm_pages by blast
qed

theorem C4_pages_ascending_witness:
  "getMessages demo_env alice 1 (Some 1) (Some 2) demo_db
     = (200, MessagesBody [demo_message 2 1 1 ''two'' 20, demo_message 3 1 1 ''three'' 20])
   \<and> getMessages demo_env alice 1 (Some 2) (Some 2) demo_db
     = (200, MessagesBody [demo_message 1 1 1 ''one'' 10])
   \<and> sorted (map m_created_at [demo_message 2 1 1 ''two'' 20, demo_message 3 1 1 ''three'' 20])
   \<and> getMessages demo_env alice 1 None None
        (demo_db\<lparr>messages := [demo_message 2 1 1 ''two'' 20, demo_message 1 1 1 ''one'' 10]\<rparr>)
     = (200, MessagesBody [demo_message 1 1 1 ''one'' 10, demo_message 2 1 1 ''two'' 20])
   \<and> sorted_wrt (<) (map m_created_at
        [demo_message 1 1 1 ''one'' 10, demo_message 2 1 1 ''two'' 20])"
  using C4_pages_ascending [where env=demo_env and user=alice and sid=1 and page_q="Some 1"
      and limit_q="Some 2" and db=demo_db and p=1 and l=2
      and rows="[demo_message 2 1 1 ''two'' 20, demo_message 3 1 1 ''three'' 20]"
      and newer="[demo_message 2 1 1 ''two'' 20, demo_message 3 1 1 ''three'' 20]"
      and older="[demo_message 1 1 1 ''one'' 10]"]
    C4_pages_ascending [where env=demo_env and user=alice and sid=1 and page_q=None
      and limit_q=None
      and db="demo_db\<lparr>messages := [demo_message 2 1 1 ''two'' 20, demo_message 1 1 1 ''one'' 10]\<rparr>"
      and rows="[demo_message 1 1 1 ''one'' 10, demo_message 2 1 1 ''two'' 20]"]
  by (simp add: demo_db_def demo_env_def demo_cfg_def demo_lib_def alice_def demo_message_def getMessages_def order_by_created_at_desc_def Let_def)

text \<open>
  C4 as stated fails: two messages of one session with the same creation time are listed one
  after the other, so the page is not strictly ascending; and for page 0 the offset is
  negative, the database rejects the query and no messages are returned.
\<close>

theorem C4_counterexample:
  "getMessages demo_env alice 1 None None demo_db
     = (200, MessagesBody [demo_message 1 1 1 ''one'' 10, demo_message 2 1 1 ''two'' 20,
                           demo_message 3 1 1 ''three'' 20])
   \<and> \<not> sorted_wrt (<) (map m_created_at
          [demo_message 1 1 1 ''one'' 10, demo_message 2 1 1 ''two'' 20,
           demo_message 3 1 1 ''three'' 20])
   \<and> getMessages demo_env alice 1 (Some 0) None demo_db
       = (500, ErrorBody ''Internal server error'')"
  by (simp add: demo_db_def demo_env_def demo_cfg_def demo_lib_def alice_def demo_message_def getMessages_def order_by_created_at_desc_def Let_def
        internal_error_def)

text \<open>
  C5. A user must not read a conversation of another user. The handler of
  \<^verbatim>\<open>GET /api/chat/sessions/:sessionId/messages\<close> keeps to that: \<^verbatim>\<open>carol\<close>, an active and verified
  user, gets 404 for session 1, which belongs to \<^verbatim>\<open>alice\<close>. The socket server does not: a
  socket that sent \<^verbatim>\<open>joinSession\<close> with the id 1 is in the room of the session, and when
  \<^verbatim>\<open>alice\<close> sends a message into it and the webhook answers, the socket receives the user
  message and the reply.
\<close>

theorem C5_foreign_read_by_socket:
  "u_is_active carol \<and> u_email_verified carol \<and> u_id carol = 3
   \<and> map s_id (chat_sessions demo_db) = [1, 2]
   \<and> map s_user_id (chat_sessions demo_db) = [1, 2]
   \<and> getMessages demo_env carol 1 None None (demo_db\<lparr>users := [alice, bob, carol]\<rparr>)
       = (404, ErrorBody ''Session not found'')
   \<and> room_members 1 (joinSession 7 1 []) = [7]
   \<and> deliveries 1 (joinSession 7 1 [])
        (snd (snd (sendMessage demo_cfg demo_lib
           (demo_env\<lparr>webhook := WebhookResponse 200 (JStr ''hi'')\<rparr>)
           alice (Some 1) (Some ''hello'') (demo_db\<lparr>users := [alice, bob, carol]\<rparr>))))
       = [(7, TypeUser), (7, TypeBot)]
   \<and> map m_message_text
        (messages (fst (snd (sendMessage demo_cfg demo_lib
           (demo_env\<lparr>webhook := WebhookResponse 200 (JStr ''hi'')\<rparr>)
           alice (Some 1) (Some ''hello'') (demo_db\<lparr>users := [alice, bob, carol]\<rparr>)))))
       = [''one'', ''two'', ''three'', ''hello'', ''hi'']"
  by (simp add: demo_db_def demo_env_def demo_cfg_def demo_lib_def alice_def carol_def
        demo_message_def getMessages_def not_found_def sendMessage_def call_webhook_def
        truthy_id_def truthy_str_def logUserActivity_def Let_def validateStatus_def
        botMessageText_def joinSession_def room_members_def deliveries_def)

theorem C5_foreign_read_by_socket_witness:
  "(7, TypeUser)
     \<in> set (deliveries 1 (joinSession 7 1 [])
        (snd (snd (sendMessage demo_cfg demo_lib
           (demo_env\<lparr>webhook := WebhookResponse 200 (JStr ''hi'')\<rparr>)
           alice (Some 1) (Some ''hello'') (demo_db\<lparr>users := [alice, bob, carol]\<rparr>)))))
   \<and> getMessages demo_env carol 1 None None (demo_db\<lparr>users := [alice, bob, carol]\<rparr>)
       = (404, ErrorBody ''Session not found'')"
  using C5_foreign_read_by_socket by simp

text \<open>
  C6, as amended. \<^verbatim>\<open>handleSubmit\<close> returns at once, with the state, the store and the list
  of effects unchanged, when the input is empty or consists of white space only, and the
  client of the relational variant then sends no request. The endpoint
  \<^verbatim>\<open>POST /api/chat/message\<close> rejects a missing or empty text with status 400 before any write;
  it does not look for white space.
\<close>

theorem C6_blank_text:
  "((\<forall>c\<in>set (st_input st). is_space c) \<longrightarrow> handleSubmit lib cenv cid st fs = (st, fs, []))
   \<and> (message = None \<or> message = Some [] \<longrightarrow>
        sendMessage cfg lib env user sessionId message db
          = ((400, ErrorBody ''Session ID and message are required''), db, []))
   \<and> ((\<forall>c\<in>set newMessage. is_space c) \<longrightarrow> app_sendMessage newMessage currentSession = None)"
  using hs_rejects [where st=st and lib=lib and env=cenv and cid=cid and fs=fs]
    sm_rejects [where sessionId=sessionId and message=message and cfg=cfg and lib=lib
      and env=env and user=user and db=db]
  by (auto simp: trim_empty_iff truthy_str_def app_sendMessage_def split: option.splits)

theorem C6_blank_text_witness:
  "trim '' '' = []
   \<and> handleSubmit demo_lib demo_client_env ''c1'' (demo_state\<lparr>st_input := '' ''\<rparr>) demo_fs
       = (demo_state\<lparr>st_input := '' ''\<rparr>, demo_fs, [])
   \<and> sendMessage demo_cfg demo_lib demo_env alice (Some 1) (Some []) demo_db
       = ((400, ErrorBody ''Session ID and message are required''), demo_db, [])
   \<and> app_sendMessage '' '' (Some 1) = None"
  using C6_blank_text [where st="demo_state\<lparr>st_input := '' ''\<rparr>" and lib=demo_lib
      and cenv=demo_client_env and cid="''c1''" and fs=demo_fs and message="Some []"
      and cfg=demo_cfg and env=demo_env and user=alice and sessionId="Some 1" and db=demo_db
      and newMessage="'' ''" and currentSession="Some 1"]
  by (simp add: demo_state_def trim_def is_space_def)

text \<open>
  C6 as stated fails at the endpoint of the relational variant: a text of three spaces is
  accepted and stored.
\<close>

theorem C6_counterexample:
  "trim ''   '' = []
   \<and> fst (sendMessage demo_cfg demo_lib demo_env alice (Some 1) (Some ''   '') demo_db)
       = (200, SendBody (user_row_of demo_env alice 1 ''   '' demo_db) webhook_failed (Some 7))
   \<and> messages (fst (snd (sendMessage demo_cfg demo_lib demo_env alice (Some 1) (Some ''   '')
        demo_db))) = messages demo_db @ [user_row_of demo_env alice 1 ''   '' demo_db]
   \<and> m_message_text (user_row_of demo_env alice 1 ''   '' demo_db) = ''   ''"
  by (simp add: demo_db_def demo_env_def demo_cfg_def demo_lib_def alice_def demo_message_def sendMessage_def call_webhook_def
        truthy_id_def truthy_str_def user_row_of_def logUserActivity_def Let_def
        trim_def is_space_def)




text \<open>
  C8. With email verification required, a login with the email of an active, unverified
  account and a password answers 403 with the code \<^verbatim>\<open>EMAIL_NOT_VERIFIED\<close>, which is not the
  answer to invalid credentials, and leaves the database as it was; whatever the request
  holds as password, the response carries no session token. (Emails are unique in the table
  of users; a request without a password is rejected with 400 by the check of the required
  fields.)
\<close>

theorem C8_login_unverified:
  "requireEmailVerification cfg \<and> distinct (map u_email (users db))
     \<and> account \<in> set (users db) \<and> u_is_active account \<and> \<not> u_email_verified account \<longrightarrow>
   session_token (fst (login cfg lib env (Some (u_email account)) pw_opt db)) = None
   \<and> (u_email account \<noteq> [] \<and> password \<noteq> [] \<and> \<not> db_fails env LoginSelectUser \<longrightarrow>
        login cfg lib env (Some (u_email account)) (Some password) db
          = ((403, ErrorCodeBody ''Please verify your email before logging in''
                     ''EMAIL_NOT_VERIFIED'' (Some (u_email account))), db)
        \<and> fst (login cfg lib env (Some (u_email account)) (Some password) db)
            \<noteq> (401, ErrorBody ''Invalid credentials''))"
  using login_unverified [where cfg=cfg and db=db and account=account and password=password
      and lib=lib and env=env]
    login_unverified_no_token [where cfg=cfg and db=db and account=account and password=pw_opt
      and lib=lib and env=env]
  by simp

theorem C8_login_unverified_witness:
  "requireEmailVerification demo_cfg
   \<and> map u_email (users demo_db) = [''alice@example.com'', ''bob@example.com'']
   \<and> bob \<in> set (users demo_db) \<and> u_is_active bob \<and> \<not> u_email_verified bob
   \<and> login demo_cfg demo_lib demo_env (Some ''bob@example.com'') (Some ''secret-b'') demo_db
       = ((403, ErrorCodeBody ''Please verify your email before logging in''
                  ''EMAIL_NOT_VERIFIED'' (Some ''bob@example.com'')), demo_db)
   \<and> session_token (fst (login demo_cfg demo_lib demo_env (Some ''bob@example.com'')
        (Some ''secret-b'') demo_db)) = None
   \<and> bcrypt_compare demo_lib ''secret-b'' (u_password_hash bob)"
  using C8_login_unverified [where cfg=demo_cfg and db=demo_db and account=bob
      and lib=demo_lib and env=demo_env and password="''secret-b''"
      and pw_opt="Some ''secret-b''"]
  by (simp add: demo_db_def demo_cfg_def demo_env_def demo_lib_def bob_def alice_def)

text \<open>
  C9. With email verification required, two logins with the email of an active, unverified
  account and any two passwords, right or wrong, have the same outcome, also under different
  hash comparisons: the check of the verification comes before the comparison of the hash.
  While the database answers, the outcome is the \<^verbatim>\<open>EMAIL_NOT_VERIFIED\<close> failure. In full, the
  outcome depends on the password field only through its being supplied at all.
\<close>

theorem C9_password_independent:
  "requireEmailVerification cfg \<and> distinct (map u_email (users db))
     \<and> account \<in> set (users db) \<and> u_is_active account \<and> \<not> u_email_verified account
     \<and> u_email account \<noteq> [] \<longrightarrow>
   (pw1 \<noteq> [] \<and> pw2 \<noteq> [] \<longrightarrow>
      login cfg lib1 env (Some (u_email account)) (Some pw1) db
        = login cfg lib2 env (Some (u_email account)) (Some pw2) db
      \<and> (\<not> db_fails env LoginSelectUser \<longrightarrow>
           fst (login cfg lib1 env (Some (u_email account)) (Some pw1) db)
             = (403, ErrorCodeBody ''Please verify your email before logging in''
                       ''EMAIL_NOT_VERIFIED'' (Some (u_email account)))))
   \<and> login cfg lib1 env (Some (u_email account)) pw_opt db
       = (if \<not> truthy_str pw_opt then (400, ErrorBody ''Email and password are required'')
          else if db_fails env LoginSelectUser then internal_error
          else (403, ErrorCodeBody ''Please verify your email before logging in''
                       ''EMAIL_NOT_VERIFIED'' (Some (u_email account))), db)"
  using login_unverified [where cfg=cfg and db=db and account=account and password=pw1
      and lib=lib1 and env=env]
    login_unverified [where cfg=cfg and db=db and account=account and password=pw2
      and lib=lib2 and env=env]
    login_unverified_any [where cfg=cfg and db=db and account=account and pw_opt=pw_opt
      and lib=lib1 and env=env]
  by simp

theorem C9_password_independent_witness:
  "bcrypt_compare demo_lib ''secret-b'' (u_password_hash bob)
   \<and> \<not> bcrypt_compare demo_lib ''wrong'' (u_password_hash bob)
   \<and> login demo_cfg demo_lib demo_env (Some ''bob@example.com'') (Some ''secret-b'') demo_db
       = login demo_cfg demo_lib demo_env (Some ''bob@example.com'') (Some ''wrong'') demo_db
   \<and> fst (login demo_cfg demo_lib demo_env (Some ''bob@example.com'') (Some ''wrong'') demo_db)
       = (403, ErrorCodeBody ''Please verify your email before logging in''
                 ''EMAIL_NOT_VERIFIED'' (Some ''bob@example.com''))"
  using C9_password_independent [where cfg=demo_cfg and db=demo_db and account=bob
      and ?lib1.0=demo_lib and ?lib2.0=demo_lib and env=demo_env and ?pw1.0="''secret-b''"
      and ?pw2.0="''wrong''" and pw_opt="Some ''wrong''"]
  by (simp add: demo_db_def demo_cfg_def demo_env_def demo_lib_def bob_def alice_def
        login_def truthy_str_def)



end
